theory Spec2Isabelle
  imports Complex_Main "HOL-Library.Sublist"
begin

section \<open>Weather monitor: strings, values and errors\<close>

text \<open>
  A Python \<open>str\<close> is a sequence of Unicode code points; it is modelled as the list of
  its code points. Every string literal of \<open>weater_monitor.py\<close> is written out as such a
  list, in hexadecimal.
\<close>

type_synonym pystr = "nat list"

text \<open>The exceptions that escape the two handlers of the main loop.\<close>

datatype error = KeyError | ValueError | TypeError | ZeroDivisionError

text \<open>
  The value of a JSON field that the code parses: the key is absent, the text does not
  parse (the parser raises), or it parses to a value.
\<close>

datatype 'a parsed = Missing | Unparsable | Parsed 'a

text \<open>
  A Python \<open>float\<close> after parsing: a double is a rational number, an infinity or NaN.
  Comparing a double with the literal \<open>5.0\<close> is exact, so \<open>>=\<close> is modelled on the value.
\<close>

datatype pyfloat = Finite rat | PosInf | NegInf | NaN

fun float_ge :: "pyfloat \<Rightarrow> rat \<Rightarrow> bool" where
  "float_ge (Finite r) c = (c \<le> r)"
| "float_ge PosInf c = True"
| "float_ge NegInf c = False"
| "float_ge NaN c = False"

text \<open>\<open>k in s\<close> on strings: \<open>k\<close> occurs in \<open>s\<close> as a contiguous run.\<close>

fun str_in :: "pystr \<Rightarrow> pystr \<Rightarrow> bool" where
  "str_in k [] = (k = [])"
| "str_in k (c # s) = (prefix k (c # s) \<or> str_in k s)"

text \<open>\<open>any(k in s for k in kws)\<close>.\<close>

definition any_in :: "pystr list \<Rightarrow> pystr \<Rightarrow> bool" where
  "any_in kws s = list_ex (\<lambda>k. str_in k s) kws"

text \<open>\<open>sep.join(xs)\<close>.\<close>

fun join :: "pystr \<Rightarrow> pystr list \<Rightarrow> pystr" where
  "join sep [] = []"
| "join sep [x] = x"
| "join sep (x # y # ys) = x @ sep @ join sep (y # ys)"

text \<open>\<open>d.get(key, default)\<close> on a field that may be absent.\<close>

definition get_default :: "'a option \<Rightarrow> 'a \<Rightarrow> 'a" where
  "get_default v d = (case v of None \<Rightarrow> d | Some x \<Rightarrow> x)"

text \<open>\<open>str(n)\<close> on an integer, as an f-string renders it.\<close>

fun digits :: "nat \<Rightarrow> pystr" where
  "digits n = (if n < 10 then [48 + n] else digits (n div 10) @ [48 + n mod 10])"

declare digits.simps [simp del]

definition str_int :: "int \<Rightarrow> pystr" where
  "str_int n = (if n < 0 then 0x2D # digits (nat (- n)) else digits (nat n))"

text \<open>
  \<open>strftime('%H:%M')\<close> of an instant in the fixed zone UTC+8. An instant is the number
  of microseconds since the epoch.
\<close>

definition two_digits :: "int \<Rightarrow> pystr" where
  "two_digits n = [48 + nat (n div 10), 48 + nat (n mod 10)]"

definition strftime_HM :: "int \<Rightarrow> pystr" where
  "strftime_HM t =
     (let secs = t div 1000000 + 8 * 3600
      in two_digits ((secs div 3600) mod 24) @ [0x3A] @ two_digits ((secs div 60) mod 60))"

definition six_hours :: int where
  "six_hours = 6 * 3600 * 1000000"

subsection \<open>Keyword tables and literals\<close>

text \<open>The condition words: shower, moderate rain, heavy rain, rainstorm, extreme rainfall.\<close>

definition kw_shower :: pystr where "kw_shower = [0x9635, 0x96E8]"
definition kw_moderate_rain :: pystr where "kw_moderate_rain = [0x4E2D, 0x96E8]"
definition kw_heavy_rain :: pystr where "kw_heavy_rain = [0x5927, 0x96E8]"
definition kw_rainstorm :: pystr where "kw_rainstorm = [0x66B4, 0x96E8]"
definition kw_extreme_rainfall :: pystr where "kw_extreme_rainfall = [0x6781, 0x7AEF, 0x964D, 0x96E8]"

text \<open>The single character for rain, and the words for light rain, sunny and overcast.\<close>

definition ch_rain :: pystr where "ch_rain = [0x96E8]"
definition txt_light_rain :: pystr where "txt_light_rain = [0x5C0F, 0x96E8]"
definition txt_sunny :: pystr where "txt_sunny = [0x6674]"
definition txt_overcast :: pystr where "txt_overcast = [0x9634]"

definition rain_keywords :: "pystr list" where
  "rain_keywords = [kw_shower, kw_moderate_rain, kw_heavy_rain, kw_rainstorm, kw_extreme_rainfall]"

definition severe_rain_keywords :: "pystr list" where
  "severe_rain_keywords = [kw_moderate_rain, kw_heavy_rain, kw_rainstorm, kw_extreme_rainfall]"

text \<open>
  Hail, typhoon, snow, blizzard, heavy snow, sandstorm, fog, haze, freezing rain, sleet.
\<close>

definition other_severe_keywords :: "pystr list" where
  "other_severe_keywords =
     [[0x51B0, 0x96F9], [0x53F0, 0x98CE], [0x96EA], [0x66B4, 0x96EA], [0x5927, 0x96EA],
      [0x6C99, 0x5C18, 0x66B4], [0x96FE], [0x973E], [0x51BB, 0x96E8], [0x96E8, 0x5939, 0x96EA]]"

text \<open>The labels of \<open>day_map\<close>: today, tomorrow, the day after tomorrow.\<close>

definition day_map :: "int \<Rightarrow> pystr option" where
  "day_map d =
     (if d = 0 then Some [0x4ECA, 0x5929]
      else if d = 1 then Some [0x660E, 0x5929]
      else if d = 2 then Some [0x540E, 0x5929]
      else None)"

text \<open>
  The titles of the daily digest: the severe-weather warning, the rain warning stem
  (warning sign, then "today's weather") and the plain title (loudspeaker, then
  "today's weather").
\<close>

definition title_severe :: pystr where
  "title_severe = [0x26A0, 0xFE0F, 0x20, 0x4ECA, 0x65E5, 0x5929, 0x6C14, 0x2D,
                   0x6076, 0x52A3, 0x5929, 0x6C14, 0x9884, 0x8B66]"

definition title_warn :: pystr where
  "title_warn = [0x26A0, 0xFE0F, 0x20, 0x4ECA, 0x65E5, 0x5929, 0x6C14]"

definition title_plain :: pystr where
  "title_plain = [0x1F4E2, 0x20, 0x4ECA, 0x65E5, 0x5929, 0x6C14]"

text \<open>
  The seven suffixes: rain on all three days, today and tomorrow, tomorrow and the day
  after, today and the day after, today, tomorrow, the day after.
\<close>

definition suffix_three_days :: pystr where
  "suffix_three_days = [0x2D, 0x672A, 0x6765, 0x4E09, 0x5929, 0x6709, 0x96E8]"
definition suffix_today_tomorrow :: pystr where
  "suffix_today_tomorrow = [0x2D, 0x4ECA, 0x660E, 0x5929, 0x6709, 0x96E8]"
definition suffix_tomorrow_after :: pystr where
  "suffix_tomorrow_after = [0x2D, 0x660E, 0x540E, 0x5929, 0x6709, 0x96E8]"
definition suffix_today_after :: pystr where
  "suffix_today_after = [0x2D, 0x4ECA, 0x540E, 0x5929, 0x6709, 0x96E8]"
definition suffix_today :: pystr where
  "suffix_today = [0x2D, 0x4ECA, 0x5929, 0x6709, 0x96E8]"
definition suffix_tomorrow :: pystr where
  "suffix_tomorrow = [0x2D, 0x660E, 0x5929, 0x6709, 0x96E8]"
definition suffix_after :: pystr where
  "suffix_after = [0x2D, 0x540E, 0x5929, 0x6709, 0x96E8]"

text \<open>The markers \<open>push_to_feishu\<close> looks for, and its three card colours.\<close>

definition mark_warning :: pystr where "mark_warning = [0x26A0, 0xFE0F]"
definition mark_alert_word :: pystr where "mark_alert_word = [0x9884, 0x8B66]"
definition mark_loudspeaker :: pystr where "mark_loudspeaker = [0x1F4E2]"

definition blue :: pystr where "blue = [0x62, 0x6C, 0x75, 0x65]"
definition red :: pystr where "red = [0x72, 0x65, 0x64]"
definition green :: pystr where "green = [0x67, 0x72, 0x65, 0x65, 0x6E]"

definition code_200 :: pystr where "code_200 = [0x32, 0x30, 0x30]"

section \<open>Data model\<close>

text \<open>
  The settings \<open>_load_config\<close> reads from \<open>config.ini\<close>, one field for each attribute it
  sets.
\<close>

record config =
  feishu_webhook_url :: pystr
  qweather_key :: pystr
  api_host :: pystr
  location :: pystr
  location_name :: pystr
  daily_push_hour :: int
  daily_push_minute :: int
  check_interval_minutes :: int
  rain_threshold_precip :: pyfloat
  rain_threshold_pop :: int

text \<open>
  The two attributes the monitor keeps between iterations. \<open>last_daily_push_date\<close> holds
  \<open>now.strftime("%Y-%m-%d")\<close>; that text determines the calendar date and the date
  determines it, so the date itself is stored, as a day number.
\<close>

record monitor_state =
  rain_active :: bool
  last_daily_push_date :: "int option"

definition init_state :: monitor_state where
  "init_state = \<lparr>rain_active = False, last_daily_push_date = None\<rparr>"

text \<open>
  One entry of the provider's \<open>daily\<close> array. \<open>fxDate\<close> carries the text of the field and
  the day number \<open>strptime\<close> reads from it; \<open>precip\<close> carries what \<open>float\<close> returns.
\<close>

record daily_item =
  fxDate :: "(pystr \<times> int) parsed"
  textDay :: "pystr option"
  textNight :: "pystr option"
  tempMin :: "pystr option"
  tempMax :: "pystr option"
  windDirDay :: "pystr option"
  windScaleDay :: "pystr option"
  humidity :: "pystr option"
  precip :: "pyfloat parsed"

text \<open>
  One entry of the provider's \<open>hourly\<close> array. \<open>fxTime\<close> carries the instant
  \<open>fromisoformat\<close> reads, \<open>item_pop\<close> what \<open>int\<close> returns on the field \<open>pop\<close>.
\<close>

record hourly_item =
  fxTime :: "int parsed"
  item_text :: "pystr option"
  item_pop :: "int parsed"

text \<open>The dictionary \<open>get_hourly_weather\<close> builds, with keys \<open>time\<close>, \<open>text\<close> and \<open>pop\<close>.\<close>

record forecast =
  f_time :: pystr
  f_text :: pystr
  f_pop :: int

text \<open>
  The JSON object \<open>_request_with_retry\<close> returns: the field \<open>code\<close> and the forecast
  array (\<open>daily\<close> or \<open>hourly\<close>). \<open>None\<close> for the whole response is the result after the
  retries are exhausted.
\<close>

record 'a response =
  resp_code :: "pystr option"
  resp_items :: "'a list option"

text \<open>The card \<open>push_to_feishu\<close> posts: header colour, title and body.\<close>

record card =
  card_template :: pystr
  card_title :: pystr
  card_content :: pystr

text \<open>
  What one iteration of the main loop reads from its environment: the clock at the top
  of the iteration, the provider's answers to the two requests, the clock read inside
  \<open>get_hourly_weather\<close>, and whether the webhook accepts a card within the retries.
\<close>

record tick =
  now_date :: int
  now_hour :: int
  now_minute :: int
  now_second :: int
  daily_resp :: "daily_item response option"
  hourly_resp :: "hourly_item response option"
  hourly_now :: int
  feishu :: "card \<Rightarrow> bool"

section \<open>Forecast client and notification gateway\<close>

definition template_of :: "pystr \<Rightarrow> pystr" where
  "template_of title =
     (if str_in mark_warning title \<or> str_in mark_alert_word title then red
      else if str_in mark_loudspeaker title then green
      else blue)"

definition push_to_feishu :: "(card \<Rightarrow> bool) \<Rightarrow> pystr \<Rightarrow> pystr \<Rightarrow> card \<times> bool" where
  "push_to_feishu webhook title content =
     (let c = \<lparr>card_template = template_of title, card_title = title, card_content = content\<rparr>
      in (c, webhook c))"

definition get_daily_weather :: "daily_item response option \<Rightarrow> daily_item list option" where
  "get_daily_weather resp =
     (case resp of
        None \<Rightarrow> None
      | Some r \<Rightarrow>
          if resp_code r \<noteq> Some code_200 then None
          else Some (get_default (resp_items r) []))"

definition in_window :: "int \<Rightarrow> int \<Rightarrow> bool" where
  "in_window now fx_time = (now \<le> fx_time \<and> fx_time \<le> now + six_hours)"

fun hourly_loop :: "int \<Rightarrow> hourly_item list \<Rightarrow> error + forecast list" where
  "hourly_loop now [] = Inr []"
| "hourly_loop now (item # rest) =
     (case fxTime item of
        Missing \<Rightarrow> Inl KeyError
      | Unparsable \<Rightarrow> Inl ValueError
      | Parsed fx_time \<Rightarrow>
          if in_window now fx_time then
            (case item_pop item of
               Unparsable \<Rightarrow> Inl ValueError
             | p \<Rightarrow>
                 (case hourly_loop now rest of
                    Inl e \<Rightarrow> Inl e
                  | Inr fs \<Rightarrow>
                      Inr (\<lparr>f_time = strftime_HM fx_time,
                            f_text = get_default (item_text item) [],
                            f_pop = (case p of Parsed n \<Rightarrow> n | _ \<Rightarrow> 0)\<rparr> # fs)))
          else hourly_loop now rest)"

definition get_hourly_weather :: "hourly_item response option \<Rightarrow> int \<Rightarrow> error + forecast list" where
  "get_hourly_weather resp now =
     (case resp of
        None \<Rightarrow> Inr []
      | Some r \<Rightarrow>
          if resp_code r \<noteq> Some code_200 then Inr []
          else hourly_loop now (get_default (resp_items r) []))"

section \<open>Daily digest\<close>

text \<open>
  The four lists the loop over the three forecast days of \<open>_handle_daily_push\<close> fills.
\<close>

record alerts =
  rain_alerts :: "pystr list"
  other_severe_alerts :: "pystr list"
  rain_days_indices :: "int list"
  severe_days_indices :: "int list"

definition no_alerts :: alerts where
  "no_alerts = \<lparr>rain_alerts = [], other_severe_alerts = [],
                 rain_days_indices = [], severe_days_indices = []\<rparr>"

text \<open>
  The rain test of one day, on the concatenated day and night texts and the parsed
  amount: \<open>is_rain_by_keyword or is_rain_by_precip\<close>.
\<close>

definition is_rain :: "pystr \<Rightarrow> pyfloat \<Rightarrow> bool" where
  "is_rain text_to_check precip_mm =
     (let is_rain_by_keyword = any_in rain_keywords text_to_check;
          is_rain_by_precip = (float_ge precip_mm 5 \<and> str_in ch_rain text_to_check)
      in is_rain_by_keyword \<or> is_rain_by_precip)"

text \<open>
  The two alert lines. \<open>float_str\<close> stands for Python's conversion of a float to text
  inside an f-string, which is not modelled and is taken as a parameter.
\<close>

definition severe_line :: "pystr \<Rightarrow> pystr \<Rightarrow> pystr" where
  "severe_line date_prefix text_day =
     [0x2219, 0x20, 0x2A, 0x2A] @ date_prefix @ [0x2A, 0x2A, 0x3A, 0x20] @ text_day"

definition rain_line :: "(pyfloat \<Rightarrow> pystr) \<Rightarrow> pystr \<Rightarrow> pystr \<Rightarrow> pyfloat \<Rightarrow> pystr" where
  "rain_line float_str date_prefix text_day precip_mm =
     severe_line date_prefix text_day
       @ [0xFF0C, 0x9884, 0x8BA1, 0x964D, 0x6C34, 0x20] @ float_str precip_mm @ [0x6D, 0x6D]"

text \<open>
  The body of the loop over \<open>forecast_data\<close>, for one day. \<open>float\<close> runs first and
  \<open>strptime\<close> after it; either may raise. The inner loop over the severe keywords adds one
  line at the first keyword found and stops.
\<close>

definition classify_day ::
    "(pyfloat \<Rightarrow> pystr) \<Rightarrow> int \<Rightarrow> daily_item \<Rightarrow> alerts \<Rightarrow> error + alerts" where
  "classify_day float_str today daily_forecast acc =
     (case precip daily_forecast of
        Unparsable \<Rightarrow> Inl ValueError
      | pf \<Rightarrow>
          let precip_mm = (case pf of Parsed x \<Rightarrow> x | _ \<Rightarrow> Finite 0);
              text_day = get_default (textDay daily_forecast) [];
              text_night = get_default (textNight daily_forecast) [];
              text_to_check = text_day @ text_night
          in (case fxDate daily_forecast of
                Missing \<Rightarrow> Inl TypeError
              | Unparsable \<Rightarrow> Inl ValueError
              | Parsed (raw, date_obj) \<Rightarrow>
                  let days_diff = date_obj - today;
                      date_prefix = get_default (day_map days_diff) raw;
                      acc1 =
                        (if is_rain text_to_check precip_mm then
                           acc\<lparr>rain_alerts :=
                                 rain_alerts acc @ [rain_line float_str date_prefix text_day precip_mm],
                               rain_days_indices :=
                                 (if day_map days_diff \<noteq> None
                                  then rain_days_indices acc @ [days_diff]
                                  else rain_days_indices acc)\<rparr>
                         else acc);
                      acc2 =
                        (if any_in other_severe_keywords text_to_check then
                           acc1\<lparr>other_severe_alerts :=
                                  other_severe_alerts acc1 @ [severe_line date_prefix text_day],
                                severe_days_indices :=
                                  (if day_map days_diff \<noteq> None
                                   then severe_days_indices acc1 @ [days_diff]
                                   else severe_days_indices acc1)\<rparr>
                         else acc1)
                  in Inr acc2))"

fun classify_loop ::
    "(pyfloat \<Rightarrow> pystr) \<Rightarrow> int \<Rightarrow> daily_item list \<Rightarrow> alerts \<Rightarrow> error + alerts" where
  "classify_loop float_str today [] acc = Inr acc"
| "classify_loop float_str today (daily_forecast # rest) acc =
     (case classify_day float_str today daily_forecast acc of
        Inl e \<Rightarrow> Inl e
      | Inr acc' \<Rightarrow> classify_loop float_str today rest acc')"

text \<open>The chain of comparisons that picks the suffix from \<open>rain_days_set\<close>.\<close>

definition title_suffix :: "int set \<Rightarrow> pystr" where
  "title_suffix rain_days_set =
     (if card rain_days_set = 3 then suffix_three_days
      else if rain_days_set = {0, 1} then suffix_today_tomorrow
      else if rain_days_set = {1, 2} then suffix_tomorrow_after
      else if rain_days_set = {0, 2} then suffix_today_after
      else if rain_days_set = {0} then suffix_today
      else if rain_days_set = {1} then suffix_tomorrow
      else if rain_days_set = {2} then suffix_after
      else [])"

definition build_title :: "int list \<Rightarrow> int list \<Rightarrow> pystr" where
  "build_title severe_days rain_days =
     (if severe_days \<noteq> [] then title_severe
      else if rain_days \<noteq> [] then title_warn @ title_suffix (set rain_days)
      else title_plain)"

definition daily_content :: "daily_item \<Rightarrow> pystr" where
  "daily_content today_data =
     (let day_text = get_default (textDay today_data) [];
          night_text = get_default (textNight today_data) [];
          weather_summary =
            (if day_text = night_text then day_text else day_text @ [0x8F6C] @ night_text);
          na = [0x4E, 0x2F, 0x41]
      in [0x1F4C5, 0x20, 0x2A, 0x2A, 0x4ECA, 0x65E5, 0x5929, 0x6C14, 0x20, 0xB7, 0x20]
           @ weather_summary @ [0x2A, 0x2A, 0x20, 0x20, 0xA]
           @ [0x1F321, 0x20, 0x6C14, 0x6E29, 0xFF1A] @ get_default (tempMin today_data) na
           @ [0x20, 0x7E, 0x20] @ get_default (tempMax today_data) na @ [0x2103, 0x20, 0x20, 0xA]
           @ [0x1F4A8, 0x20, 0x98CE, 0x529B, 0xFF1A] @ get_default (windDirDay today_data) []
           @ [0x20] @ get_default (windScaleDay today_data) [] @ [0x7EA7, 0x20, 0x20, 0xA]
           @ [0x1F4A7, 0x20, 0x6E7F, 0x5EA6, 0xFF1A] @ get_default (humidity today_data) na
           @ [0x25])"

definition full_content :: "config \<Rightarrow> daily_item \<Rightarrow> alerts \<Rightarrow> pystr" where
  "full_content cfg today_data a =
     (let header = [0x1F4CD, 0x20] @ location_name cfg @ [0xA];
          c0 = header @ [0xA] @ daily_content today_data;
          c1 = (if other_severe_alerts a \<noteq> [] then
                  c0 @ [0xA, 0xA, 0x2D, 0x2D, 0x2D, 0xA, 0x2A, 0x2A, 0x6076, 0x52A3, 0x5929,
                        0x6C14, 0x63D0, 0x9192, 0x2A, 0x2A, 0x20, 0x20, 0xA]
                     @ join [0xA] (other_severe_alerts a)
                else c0)
      in if rain_alerts a \<noteq> [] then
           c1 @ [0xA, 0xA, 0x2D, 0x2D, 0x2D, 0xA, 0x2A, 0x2A, 0x964D, 0x96E8, 0x63D0, 0x9192,
                 0x2A, 0x2A, 0x20, 0x20, 0xA]
              @ join [0xA] (rain_alerts a)
         else c1)"

text \<open>
  \<open>_handle_daily_push\<close>: the new state and the cards posted. The value
  \<open>push_to_feishu\<close> returns is dropped, as in the source.
\<close>

definition handle_daily_push ::
    "(pyfloat \<Rightarrow> pystr) \<Rightarrow> config \<Rightarrow> monitor_state \<Rightarrow> tick
       \<Rightarrow> error + (monitor_state \<times> card list)" where
  "handle_daily_push float_str cfg st t =
     (if now_hour t = daily_push_hour cfg \<and> now_minute t = daily_push_minute cfg then
        let today_str = now_date t
        in if last_daily_push_date st \<noteq> Some today_str then
             (case get_daily_weather (daily_resp t) of
                None \<Rightarrow> Inr (st, [])
              | Some [] \<Rightarrow> Inr (st, [])
              | Some (today_data # rest) \<Rightarrow>
                  (case classify_loop float_str (now_date t) (today_data # rest) no_alerts of
                     Inl e \<Rightarrow> Inl e
                   | Inr a \<Rightarrow>
                       let title = build_title (severe_days_indices a) (rain_days_indices a);
                           (c, ok) = push_to_feishu (feishu t) title (full_content cfg today_data a)
                       in Inr (st\<lparr>last_daily_push_date := Some today_str\<rparr>, [c])))
           else Inr (st, [])
      else Inr (st, []))"

section \<open>Rain alert\<close>

text \<open>
  The source of \<open>_handle_rain_alert\<close> is not accepted by Python as it stands: in line
  272 and in line 293 the f-string inside the list comprehension is followed by a closing
  parenthesis that nothing opened. This section embeds the function with these two
  characters removed, which is the comprehension each line spells out apart from them.
  Line 293 becomes \<open>hourly_lines\<close> in \<open>rain_content\<close>, one \<open>hourly_line\<close> for each
  detected record; line 272 builds a text that is only logged and is left out with the
  logging. The function as the file has it is \<open>handle_rain_alert_as_given\<close>, in the next
  section.
\<close>

text \<open>
  The loop of \<open>_handle_rain_alert\<close> keeps the records whose text contains a severe-rain
  keyword, in list order; \<open>rain_start_time\<close> is the time label of the first one kept.
\<close>

definition qualifying :: "forecast \<Rightarrow> bool" where
  "qualifying item = any_in severe_rain_keywords (f_text item)"

definition detected_forecasts :: "forecast list \<Rightarrow> forecast list" where
  "detected_forecasts hourly_forecasts = filter qualifying hourly_forecasts"

definition rain_title :: "pystr \<Rightarrow> pystr" where
  "rain_title rain_start_time =
     [0x26A0, 0xFE0F, 0x20, 0x9884, 0x8BA1, 0x20] @ rain_start_time
       @ [0x20, 0x6709, 0x5F3A, 0x964D, 0x96E8, 0xFF0C, 0x8BF7, 0x6CE8, 0x610F]"

text \<open>
  The f-string of line 293 for one record, and the body of the card. In \<open>rain_content\<close>,
  \<open>hourly_lines\<close> is line 293 without its stray parenthesis.
\<close>

definition hourly_line :: "forecast \<Rightarrow> pystr" where
  "hourly_line f =
     [0x2219, 0x20] @ f_time f @ [0x20, 0x7C, 0x20] @ f_text f
       @ [0x20, 0x7C, 0x20, 0x964D, 0x6C34, 0x6982, 0x7387, 0x20] @ str_int (f_pop f) @ [0x25]"

definition rain_content :: "config \<Rightarrow> forecast list \<Rightarrow> pystr" where
  "rain_content cfg detected =
     (let header = [0x1F4CD, 0x20] @ location_name cfg @ [0xA, 0xA, 0x2D, 0x2D, 0x2D, 0xA];
          hourly_lines = map hourly_line detected;
          hourly_content =
            [0x1F4A7, 0x20, 0x2A, 0x2A, 0x5F3A, 0x964D, 0x96E8, 0x8BE6, 0x60C5, 0x2A, 0x2A,
             0x20, 0x20, 0xA] @ join [0x20, 0x20, 0xA] hourly_lines
      in header @ hourly_content)"

text \<open>
  \<open>_handle_rain_alert\<close> with the stray parentheses of lines 272 and 293 removed: the new
  state and the cards posted. The remainder by a zero interval raises before anything
  else happens.
\<close>

definition handle_rain_alert ::
    "config \<Rightarrow> monitor_state \<Rightarrow> tick \<Rightarrow> error + (monitor_state \<times> card list)" where
  "handle_rain_alert cfg st t =
     (if check_interval_minutes cfg = 0 then Inl ZeroDivisionError
      else if now_minute t mod check_interval_minutes cfg = 0 then
        (case get_hourly_weather (hourly_resp t) (hourly_now t) of
           Inl e \<Rightarrow> Inl e
         | Inr hourly_forecasts \<Rightarrow>
             (case detected_forecasts hourly_forecasts of
                [] \<Rightarrow> Inr (st\<lparr>rain_active := False\<rparr>, [])
              | first # others \<Rightarrow>
                  if \<not> rain_active st then
                    let title = rain_title (f_time first);
                        (c, ok) = push_to_feishu (feishu t) title
                                    (rain_content cfg (first # others))
                    in Inr (st\<lparr>rain_active := True\<rparr>, [c])
                  else Inr (st, [])))
      else Inr (st, []))"

section \<open>The rain handler as the file has it\<close>

text \<open>
  Lines 272 and 293 of \<open>weater_monitor.py\<close>, without their indentation. The stray
  parenthesis is the character at index 67 of the first and 65 of the second, right after
  the closing quote of the f-string.
\<close>

definition source_line_272 :: pystr where
  "source_line_272 =
     [0x66, 0x6F, 0x72, 0x65, 0x63, 0x61, 0x73, 0x74, 0x5F, 0x6C, 0x69, 0x6E, 0x65, 0x73,
      0x20, 0x3D, 0x20, 0x5B, 0x66, 0x22, 0x2219, 0x20, 0x7B, 0x66, 0x5B, 0x27, 0x74, 0x69,
      0x6D, 0x65, 0x27, 0x5D, 0x7D, 0x20, 0x7C, 0x20, 0x7B, 0x66, 0x5B, 0x27, 0x74, 0x65,
      0x78, 0x74, 0x27, 0x5D, 0x7D, 0x20, 0x7C, 0x20, 0x964D, 0x6C34, 0x6982, 0x7387, 0x20,
      0x7B, 0x66, 0x5B, 0x27, 0x70, 0x6F, 0x70, 0x27, 0x5D, 0x7D, 0x25, 0x22, 0x29, 0x20,
      0x66, 0x6F, 0x72, 0x20, 0x66, 0x20, 0x69, 0x6E, 0x20, 0x68, 0x6F, 0x75, 0x72, 0x6C,
      0x79, 0x5F, 0x66, 0x6F, 0x72, 0x65, 0x63, 0x61, 0x73, 0x74, 0x73, 0x5D]"

definition source_line_293 :: pystr where
  "source_line_293 =
     [0x68, 0x6F, 0x75, 0x72, 0x6C, 0x79, 0x5F, 0x6C, 0x69, 0x6E, 0x65, 0x73, 0x20, 0x3D,
      0x20, 0x5B, 0x66, 0x22, 0x2219, 0x20, 0x7B, 0x66, 0x5B, 0x27, 0x74, 0x69, 0x6D, 0x65,
      0x27, 0x5D, 0x7D, 0x20, 0x7C, 0x20, 0x7B, 0x66, 0x5B, 0x27, 0x74, 0x65, 0x78, 0x74,
      0x27, 0x5D, 0x7D, 0x20, 0x7C, 0x20, 0x964D, 0x6C34, 0x6982, 0x7387, 0x20, 0x7B, 0x66,
      0x5B, 0x27, 0x70, 0x6F, 0x70, 0x27, 0x5D, 0x7D, 0x25, 0x22, 0x29, 0x20, 0x66, 0x6F,
      0x72, 0x20, 0x66, 0x20, 0x69, 0x6E, 0x20, 0x64, 0x65, 0x74, 0x65, 0x63, 0x74, 0x65,
      0x64, 0x5F, 0x66, 0x6F, 0x72, 0x65, 0x63, 0x61, 0x73, 0x74, 0x73, 0x5D]"

text \<open>
  The bracket rule of Python on a statement of one line. Outside string literals an
  opening bracket asks for its closing bracket, a closing bracket must be the one asked
  for last, and at the end nothing may be left open. The first argument holds the
  closing brackets asked for, innermost first; the second the quote of the string literal
  being read, if any. The two lines have no escaped quote and no comment.
\<close>

fun brackets :: "nat list \<Rightarrow> nat option \<Rightarrow> pystr \<Rightarrow> bool" where
  "brackets stack None [] = (stack = [])"
| "brackets stack (Some q) [] = False"
| "brackets stack (Some q) (c # cs) =
     (if c = q then brackets stack None cs else brackets stack (Some q) cs)"
| "brackets stack None (c # cs) =
     (if c = 0x22 \<or> c = 0x27 then brackets stack (Some c) cs
      else if c = 0x28 then brackets (0x29 # stack) None cs
      else if c = 0x5B then brackets (0x5D # stack) None cs
      else if c = 0x7B then brackets (0x7D # stack) None cs
      else if c = 0x29 \<or> c = 0x5D \<or> c = 0x7D then
        (case stack of [] \<Rightarrow> False | e # rest \<Rightarrow> e = c \<and> brackets rest None cs)
      else brackets stack None cs)"

definition well_bracketed :: "pystr \<Rightarrow> bool" where
  "well_bracketed line = brackets [] None line"

text \<open>
  Python compiles a file before it runs any of it and refuses the file at the first line
  that breaks the bracket rule, so that no call of the function is ever made; this is the
  outcome \<open>SyntaxError\<close>. \<open>_handle_rain_alert\<close> as the file has it is the function of the
  previous section only if its two lines pass.
\<close>

datatype load_error = SyntaxError

definition handle_rain_alert_as_given ::
    "config \<Rightarrow> monitor_state \<Rightarrow> tick
       \<Rightarrow> load_error + (error + (monitor_state \<times> card list))" where
  "handle_rain_alert_as_given cfg st t =
     (if well_bracketed source_line_272 \<and> well_bracketed source_line_293
      then Inr (handle_rain_alert cfg st t)
      else Inl SyntaxError)"

section \<open>Main loop\<close>

text \<open>
  The loop is embedded with the rain handler of the section before last, the one without
  the two stray parentheses.
\<close>

text \<open>The two assignments to \<open>next_minute\<close> at the end of an iteration of \<open>run\<close>.\<close>

definition next_minute :: "int \<Rightarrow> int \<Rightarrow> int" where
  "next_minute interval minute =
     (let nm = (interval - minute mod interval) mod interval
      in if nm = 0 then interval else nm)"

definition sleep_seconds :: "config \<Rightarrow> tick \<Rightarrow> error + int" where
  "sleep_seconds cfg t =
     (if check_interval_minutes cfg = 0 then Inl ZeroDivisionError
      else Inr (next_minute (check_interval_minutes cfg) (now_minute t) * 60 - now_second t))"

text \<open>What one iteration posts: the cards of the daily digest and those of the rain alert.\<close>

record tick_out =
  daily_out :: "card list"
  rain_out :: "card list"

text \<open>
  One iteration of \<open>while True\<close>: the daily handler, the rain handler, the sleep.
  \<open>time.sleep\<close> raises on a negative length. An exception ends the iteration; what was
  posted before it stays posted.
\<close>

definition tick_step ::
    "(pyfloat \<Rightarrow> pystr) \<Rightarrow> config \<Rightarrow> monitor_state \<Rightarrow> tick
       \<Rightarrow> tick_out \<times> (error + monitor_state)" where
  "tick_step float_str cfg st t =
     (case handle_daily_push float_str cfg st t of
        Inl e \<Rightarrow> (\<lparr>daily_out = [], rain_out = []\<rparr>, Inl e)
      | Inr (st1, daily) \<Rightarrow>
          (case handle_rain_alert cfg st1 t of
             Inl e \<Rightarrow> (\<lparr>daily_out = daily, rain_out = []\<rparr>, Inl e)
           | Inr (st2, rain) \<Rightarrow>
               (\<lparr>daily_out = daily, rain_out = rain\<rparr>,
                (case sleep_seconds cfg t of
                   Inl e \<Rightarrow> Inl e
                 | Inr s \<Rightarrow> if s < 0 then Inl ValueError else Inr st2))))"

text \<open>
  \<open>run\<close> on the first iterations of the loop, one list element for each: the outputs of
  the iterations run, and the state after the last one or the exception that ended the
  loop.
\<close>

fun run ::
    "(pyfloat \<Rightarrow> pystr) \<Rightarrow> config \<Rightarrow> monitor_state \<Rightarrow> tick list
       \<Rightarrow> tick_out list \<times> (error + monitor_state)" where
  "run float_str cfg st [] = ([], Inr st)"
| "run float_str cfg st (t # ts) =
     (case tick_step float_str cfg st t of
        (out, Inl e) \<Rightarrow> ([out], Inl e)
      | (out, Inr st') \<Rightarrow>
          (case run float_str cfg st' ts of (outs, r) \<Rightarrow> (out # outs, r)))"

text \<open>The number of daily digests, and of rain alerts, a list of outputs holds.\<close>

definition daily_count :: "tick_out list \<Rightarrow> nat" where
  "daily_count outs = length (concat (map daily_out outs))"

definition rain_count :: "tick_out list \<Rightarrow> nat" where
  "rain_count outs = length (concat (map rain_out outs))"

section \<open>Notions used in the statements\<close>

text \<open>
  What the rain check of an iteration observes: the records it detects, when the minute
  is a multiple of the interval and the hourly fetch returns; nothing when the check is
  skipped or raises.
\<close>

definition rain_check :: "config \<Rightarrow> tick \<Rightarrow> forecast list option" where
  "rain_check cfg t =
     (if check_interval_minutes cfg \<noteq> 0 \<and> now_minute t mod check_interval_minutes cfg = 0 then
        (case get_hourly_weather (hourly_resp t) (hourly_now t) of
           Inl e \<Rightarrow> None
         | Inr hourly_forecasts \<Rightarrow> Some (detected_forecasts hourly_forecasts))
      else None)"

text \<open>
  A qualifying iteration observes at least one qualifying hour; a clear iteration observes
  none.
\<close>

definition qualifying_tick :: "config \<Rightarrow> tick \<Rightarrow> bool" where
  "qualifying_tick cfg t = (case rain_check cfg t of Some (f # fs) \<Rightarrow> True | _ \<Rightarrow> False)"

definition clear_tick :: "config \<Rightarrow> tick \<Rightarrow> bool" where
  "clear_tick cfg t = (rain_check cfg t = Some [])"

text \<open>
  The number of daily digests posted by the iterations that ran on calendar date \<open>d\<close>,
  given the iterations and their outputs side by side.
\<close>

definition daily_on :: "int \<Rightarrow> tick list \<Rightarrow> tick_out list \<Rightarrow> nat" where
  "daily_on d ticks outs =
     daily_count (map snd (filter (\<lambda>p. now_date (fst p) = d) (zip ticks outs)))"

text \<open>
  The dictionary built from one hourly entry whose fields parse, and the test of the
  window on the entry.
\<close>

definition to_forecast :: "hourly_item \<Rightarrow> forecast" where
  "to_forecast item =
     \<lparr>f_time = strftime_HM (case fxTime item of Parsed t \<Rightarrow> t | _ \<Rightarrow> 0),
      f_text = get_default (item_text item) [],
      f_pop = (case item_pop item of Parsed n \<Rightarrow> n | _ \<Rightarrow> 0)\<rparr>"

definition item_in_window :: "int \<Rightarrow> hourly_item \<Rightarrow> bool" where
  "item_in_window now item =
     (case fxTime item of Parsed t \<Rightarrow> now \<le> t \<and> t \<le> now + six_hours | _ \<Rightarrow> False)"

text \<open>
  The four lists the daily handler computes from the answer of the provider, when the
  fetch succeeds with at least one day and no field fails to parse.
\<close>

definition digest_alerts :: "(pyfloat \<Rightarrow> pystr) \<Rightarrow> tick \<Rightarrow> alerts option" where
  "digest_alerts float_str t =
     (case get_daily_weather (daily_resp t) of
        Some (today_data # rest) \<Rightarrow>
          (case classify_loop float_str (now_date t) (today_data # rest) no_alerts of
             Inl e \<Rightarrow> None
           | Inr a \<Rightarrow> Some a)
      | _ \<Rightarrow> None)"

text \<open>The text and the amount the rain test of a day reads.\<close>

definition text_to_check :: "daily_item \<Rightarrow> pystr" where
  "text_to_check df = get_default (textDay df) [] @ get_default (textNight df) []"

definition precip_mm :: "daily_item \<Rightarrow> pyfloat" where
  "precip_mm df = (case precip df of Parsed x \<Rightarrow> x | _ \<Rightarrow> Finite 0)"

section \<open>Sample inputs\<close>

definition cfg0 :: config where
  "cfg0 = \<lparr>feishu_webhook_url = [], qweather_key = [], api_host = [], location = [],
           location_name = [0x53, 0x5A], daily_push_hour = 8, daily_push_minute = 0,
           check_interval_minutes = 10, rain_threshold_precip = Finite 5,
           rain_threshold_pop = 50\<rparr>"

text \<open>A rendering of the two amounts the samples use, \<open>12.0\<close> and \<open>0.0\<close>.\<close>

definition float_str0 :: "pyfloat \<Rightarrow> pystr" where
  "float_str0 x = (if x = Finite 12 then [0x31, 0x32, 0x2E, 0x30] else [0x30, 0x2E, 0x30])"

text \<open>
  Hourly entries at 15:00, 16:00 and 17:00 local time of the first day of the epoch:
  light rain 70, moderate rain 90, light rain 60; and one at 20:30.
\<close>

definition h15 :: hourly_item where
  "h15 = \<lparr>fxTime = Parsed 25200000000, item_text = Some txt_light_rain, item_pop = Parsed 70\<rparr>"
definition h16 :: hourly_item where
  "h16 = \<lparr>fxTime = Parsed 28800000000, item_text = Some kw_moderate_rain, item_pop = Parsed 90\<rparr>"
definition h17 :: hourly_item where
  "h17 = \<lparr>fxTime = Parsed 32400000000, item_text = Some txt_light_rain, item_pop = Parsed 60\<rparr>"
definition h2030 :: hourly_item where
  "h2030 = \<lparr>fxTime = Parsed 45000000000, item_text = Some txt_sunny, item_pop = Parsed 0\<rparr>"

text \<open>An iteration at 14:30:00 whose hourly fetch returns the three entries.\<close>

definition tick_rain :: tick where
  "tick_rain = \<lparr>now_date = 0, now_hour = 14, now_minute = 30, now_second = 0,
                daily_resp = None,
                hourly_resp = Some \<lparr>resp_code = Some code_200, resp_items = Some [h15, h16, h17]\<rparr>,
                hourly_now = 23400000000, feishu = (\<lambda>c. True)\<rparr>"

text \<open>An iteration at 14:40:00 whose hourly fetch returns light rain only.\<close>

definition tick_dry :: tick where
  "tick_dry = \<lparr>now_date = 0, now_hour = 14, now_minute = 40, now_second = 0,
               daily_resp = None,
               hourly_resp = Some \<lparr>resp_code = Some code_200, resp_items = Some [h15, h17]\<rparr>,
               hourly_now = 24000000000, feishu = (\<lambda>c. True)\<rparr>"

text \<open>
  Three days: sunny; moderate rain with 12 mm; overcast with 0 mm. The day numbers are 0,
  1 and 2.
\<close>

definition day0 :: daily_item where
  "day0 = \<lparr>fxDate = Parsed ([], 0), textDay = Some txt_sunny, textNight = Some txt_sunny,
           tempMin = None, tempMax = None, windDirDay = None, windScaleDay = None,
           humidity = None, precip = Parsed (Finite 0)\<rparr>"
definition day1 :: daily_item where
  "day1 = \<lparr>fxDate = Parsed ([], 1), textDay = Some kw_moderate_rain,
           textNight = Some kw_moderate_rain,
           tempMin = None, tempMax = None, windDirDay = None, windScaleDay = None,
           humidity = None, precip = Parsed (Finite 12)\<rparr>"
definition day2 :: daily_item where
  "day2 = \<lparr>fxDate = Parsed ([], 2), textDay = Some txt_overcast, textNight = Some txt_overcast,
           tempMin = None, tempMax = None, windDirDay = None, windScaleDay = None,
           humidity = None, precip = Parsed (Finite 0)\<rparr>"

text \<open>
  An iteration at 08:00:00 of day 0 whose daily fetch returns the three days and whose
  webhook refuses every card; and one at the same minute whose daily fetch fails.
\<close>

definition tick_digest :: tick where
  "tick_digest = \<lparr>now_date = 0, now_hour = 8, now_minute = 0, now_second = 0,
                  daily_resp = Some \<lparr>resp_code = Some code_200,
                                     resp_items = Some [day0, day1, day2]\<rparr>,
                  hourly_resp = None, hourly_now = 0, feishu = (\<lambda>c. False)\<rparr>"

definition tick_digest_failed :: tick where
  "tick_digest_failed = \<lparr>now_date = 0, now_hour = 8, now_minute = 0, now_second = 0,
                         daily_resp = None, hourly_resp = None, hourly_now = 0,
                         feishu = (\<lambda>c. True)\<rparr>"

section \<open>Sleep until the next check\<close>

lemma next_minute_pos: "1 \<le> c \<Longrightarrow> 0 < next_minute c m"
  by (simp add: next_minute_def Let_def) (smt (verit) pos_mod_sign)

lemma next_minute_le: "1 \<le> c \<Longrightarrow> next_minute c m \<le> c"
  by (simp add: next_minute_def Let_def) (smt (verit) pos_mod_bound)

lemma next_minute_aligned: "1 \<le> c \<Longrightarrow> (m + next_minute c m) mod c = 0"
proof -
  assume c: "1 \<le> c"
  have "m + (c - m mod c) = c * (m div c + 1)"
    using mult_div_mod_eq [of c m] by (simp add: algebra_simps)
  then have b: "(m + (c - m mod c)) mod c = 0" by simp
  have "(m + (c - m mod c) mod c) mod c = (m + (c - m mod c)) mod c"
    by (rule mod_add_right_eq)
  with b have a: "(m + (c - m mod c) mod c) mod c = 0" by simp
  show ?thesis
  proof (cases "(c - m mod c) mod c = 0")
    case True
    then have "next_minute c m = c" by (simp add: next_minute_def)
    moreover from True a have "m mod c = 0" by simp
    ultimately show ?thesis by simp
  next
    case False
    then have "next_minute c m = (c - m mod c) mod c" by (simp add: next_minute_def)
    with a show ?thesis by simp
  qed
qed

lemma next_minute_boundary: "1 \<le> c \<Longrightarrow> m mod c = 0 \<Longrightarrow> next_minute c m = c"
  by (simp add: next_minute_def)

lemma next_minute_least:
  assumes c: "1 \<le> c" and k: "0 < k" "k < next_minute c m"
  shows "(m + k) mod c \<noteq> 0"
proof
  assume z: "(m + k) mod c = 0"
  have a: "(m + next_minute c m) mod c = 0" using c by (rule next_minute_aligned)
  have "(next_minute c m - k) mod c = ((m + next_minute c m) - (m + k)) mod c" by simp
  also have "\<dots> = 0" using a z by (metis mod_diff_eq diff_self mod_0)
  finally have d: "c dvd (next_minute c m - k)" by (simp add: dvd_eq_mod_eq_0)
  have "0 < next_minute c m - k" using k by simp
  then have "c \<le> next_minute c m - k" using d by (simp add: zdvd_imp_le)
  moreover have "next_minute c m \<le> c" using c by (rule next_minute_le)
  ultimately show False using k by simp
qed

text \<open>
  Claim C9. With an interval of at least one minute and the seconds of the clock at most
  59, the sleep computed at the end of an iteration returns a length \<open>s\<close> that is strictly
  positive; it is \<open>n * 60\<close> less the seconds, where \<open>n\<close> minutes after the current minute is
  the next multiple of the interval counted from the top of the hour: \<open>n\<close> is positive,
  \<open>(minute + n) mod interval = 0\<close>, and no smaller positive number of minutes reaches a
  multiple. When the current minute is itself a multiple, \<open>n\<close> is a full interval. Nothing is
  assumed of the minute, so the range 0 to 59 is covered.
\<close>

theorem sleep_positive_and_aligned:
  assumes "1 \<le> check_interval_minutes cfg" and "now_second t \<le> 59"
  shows "\<exists>s n. sleep_seconds cfg t = Inr s
           \<and> n = next_minute (check_interval_minutes cfg) (now_minute t)
           \<and> s = n * 60 - now_second t
           \<and> 0 < s \<and> 0 < n
           \<and> (now_minute t + n) mod check_interval_minutes cfg = 0
           \<and> (\<forall>k. 0 < k \<and> k < n \<longrightarrow> (now_minute t + k) mod check_interval_minutes cfg \<noteq> 0)
           \<and> (now_minute t mod check_interval_minutes cfg = 0 \<longrightarrow> n = check_interval_minutes cfg)"
proof -
  let ?c = "check_interval_minutes cfg"
  let ?n = "next_minute ?c (now_minute t)"
  have pos: "0 < ?n" using assms(1) by (rule next_minute_pos)
  have s: "sleep_seconds cfg t = Inr (?n * 60 - now_second t)"
    using assms(1) by (simp add: sleep_seconds_def)
  have spos: "0 < ?n * 60 - now_second t" using pos assms(2) by simp
  have al: "(now_minute t + ?n) mod ?c = 0" using assms(1) by (rule next_minute_aligned)
  have least: "\<forall>k. 0 < k \<and> k < ?n \<longrightarrow> (now_minute t + k) mod ?c \<noteq> 0"
    using next_minute_least [OF assms(1)] by auto
  have full: "now_minute t mod ?c = 0 \<longrightarrow> ?n = ?c"
    using next_minute_boundary [OF assms(1)] by auto
  show ?thesis
    by (intro exI [of _ "?n * 60 - now_second t"] exI [of _ ?n] conjI s refl spos pos al
              least full)
qed

theorem sleep_positive_and_aligned_witness:
  "1 \<le> check_interval_minutes cfg0 \<and> now_second tick_rain \<le> 59
   \<and> sleep_seconds cfg0 tick_rain = Inr 600"
  using sleep_positive_and_aligned [of cfg0 tick_rain]
  by (simp add: cfg0_def tick_rain_def sleep_seconds_def next_minute_def)

section \<open>The two thresholds of the configuration\<close>

lemma full_content_thresholds:
  "full_content (cfg\<lparr>rain_threshold_precip := x, rain_threshold_pop := y\<rparr>) d a
     = full_content cfg d a"
  by (simp add: full_content_def)

lemma rain_content_thresholds:
  "rain_content (cfg\<lparr>rain_threshold_precip := x, rain_threshold_pop := y\<rparr>) d
     = rain_content cfg d"
  by (simp add: rain_content_def)

lemma daily_push_thresholds:
  "handle_daily_push fs (cfg\<lparr>rain_threshold_precip := x, rain_threshold_pop := y\<rparr>) st t
     = handle_daily_push fs cfg st t"
  unfolding handle_daily_push_def full_content_thresholds by simp

lemma rain_alert_thresholds:
  "handle_rain_alert (cfg\<lparr>rain_threshold_precip := x, rain_threshold_pop := y\<rparr>) st t
     = handle_rain_alert cfg st t"
  unfolding handle_rain_alert_def rain_content_thresholds by simp

lemma sleep_thresholds:
  "sleep_seconds (cfg\<lparr>rain_threshold_precip := x, rain_threshold_pop := y\<rparr>) t
     = sleep_seconds cfg t"
  by (simp add: sleep_seconds_def)

lemma tick_step_thresholds:
  "tick_step fs (cfg\<lparr>rain_threshold_precip := x, rain_threshold_pop := y\<rparr>) st t
     = tick_step fs cfg st t"
  unfolding tick_step_def daily_push_thresholds rain_alert_thresholds sleep_thresholds ..

lemma run_thresholds:
  "run fs (cfg\<lparr>rain_threshold_precip := x, rain_threshold_pop := y\<rparr>) st ts
     = run fs cfg st ts"
  by (induction ts arbitrary: st) (simp_all add: tick_step_thresholds)

text \<open>
  Claim C10. Replacing \<open>rain_threshold_precip\<close> and \<open>rain_threshold_pop\<close> by any other
  values changes nothing: the daily handler, the rain handler and every run of the loop
  return the same states, the same cards and the same exceptions. The rain test of a day
  compares the amount with the literal 5, and the test of an hour reads the text only.
\<close>

theorem thresholds_unused:
  "handle_daily_push fs (cfg\<lparr>rain_threshold_precip := x, rain_threshold_pop := y\<rparr>) st t
     = handle_daily_push fs cfg st t
   \<and> handle_rain_alert (cfg\<lparr>rain_threshold_precip := x, rain_threshold_pop := y\<rparr>) st t
     = handle_rain_alert cfg st t
   \<and> run fs (cfg\<lparr>rain_threshold_precip := x, rain_threshold_pop := y\<rparr>) st ts
     = run fs cfg st ts
   \<and> is_rain txt (Finite p) = (any_in rain_keywords txt \<or> (5 \<le> p \<and> str_in ch_rain txt))
   \<and> qualifying \<lparr>f_time = tm, f_text = txt, f_pop = pop1\<rparr>
     = qualifying \<lparr>f_time = tm, f_text = txt, f_pop = pop2\<rparr>"
  by (simp add: daily_push_thresholds rain_alert_thresholds run_thresholds is_rain_def
                qualifying_def)

section \<open>Rain hysteresis\<close>

lemma handle_daily_push_rain_active:
  "handle_daily_push fs cfg st t = Inr (st', cards) \<Longrightarrow> rain_active st' = rain_active st"
  by (auto simp: handle_daily_push_def Let_def push_to_feishu_def
           split: if_splits option.splits list.splits sum.splits)

lemma rain_step_emits:
  assumes "handle_rain_alert cfg st t = Inr (st', cards)"
  shows "(cards \<noteq> [] \<longleftrightarrow> qualifying_tick cfg t \<and> \<not> rain_active st) \<and> length cards \<le> 1
         \<and> (cards \<noteq> [] \<longrightarrow> rain_active st')"
  using assms
  by (auto simp: handle_rain_alert_def qualifying_tick_def rain_check_def Let_def push_to_feishu_def
           split: if_splits sum.splits list.splits)

lemma rain_step_qualifying:
  assumes "qualifying_tick cfg t"
  shows "\<exists>cards. handle_rain_alert cfg st t = Inr (st\<lparr>rain_active := True\<rparr>, cards)
           \<and> length cards = (if rain_active st then 0 else 1)"
  using assms
  by (auto simp: handle_rain_alert_def qualifying_tick_def rain_check_def Let_def push_to_feishu_def
           split: if_splits sum.splits list.splits)

lemma rain_step_clear:
  assumes "clear_tick cfg t"
  shows "handle_rain_alert cfg st t = Inr (st\<lparr>rain_active := False\<rparr>, [])"
  using assms
  by (auto simp: handle_rain_alert_def clear_tick_def rain_check_def
           split: if_splits sum.splits list.splits)

lemma tick_step_ok:
  assumes "tick_step fs cfg st t = (out, Inr st2)"
  shows "\<exists>st1. handle_daily_push fs cfg st t = Inr (st1, daily_out out)
           \<and> handle_rain_alert cfg st1 t = Inr (st2, rain_out out)"
  using assms
  by (auto simp: tick_step_def split: sum.splits prod.splits if_splits)

lemma run_Cons_ok:
  assumes "snd (run fs cfg st (t # ts)) = Inr st'"
  shows "\<exists>out st2. tick_step fs cfg st t = (out, Inr st2)
           \<and> snd (run fs cfg st2 ts) = Inr st'
           \<and> fst (run fs cfg st (t # ts)) = out # fst (run fs cfg st2 ts)"
  using assms
  by (auto split: sum.splits prod.splits)

lemma rain_count_Cons: "rain_count (out # outs) = length (rain_out out) + rain_count outs"
  by (simp add: rain_count_def)

lemma run_all_qualifying:
  assumes "snd (run fs cfg st ts) = Inr st'" and "\<forall>t \<in> set ts. qualifying_tick cfg t"
  shows "rain_count (fst (run fs cfg st ts)) = (if rain_active st \<or> ts = [] then 0 else 1)
         \<and> rain_active st' = (rain_active st \<or> ts \<noteq> [])"
  using assms
proof (induction ts arbitrary: st)
  case Nil
  then show ?case by (simp add: rain_count_def)
next
  case (Cons t ts)
  from run_Cons_ok [OF Cons.prems(1)] obtain out st2 where
    step: "tick_step fs cfg st t = (out, Inr st2)" and
    rest: "snd (run fs cfg st2 ts) = Inr st'" and
    outs: "fst (run fs cfg st (t # ts)) = out # fst (run fs cfg st2 ts)" by blast
  from tick_step_ok [OF step] obtain st1 where
    d: "handle_daily_push fs cfg st t = Inr (st1, daily_out out)" and
    r: "handle_rain_alert cfg st1 t = Inr (st2, rain_out out)" by blast
  have ra: "rain_active st1 = rain_active st" using d by (rule handle_daily_push_rain_active)
  from Cons.prems(2) have q: "qualifying_tick cfg t" by simp
  from rain_step_qualifying [OF q, of st1] r
  have st2: "rain_active st2" and len: "length (rain_out out) = (if rain_active st then 0 else 1)"
    using ra by auto
  from Cons.IH [OF rest] Cons.prems(2)
  have ih: "rain_count (fst (run fs cfg st2 ts)) = 0" and fin: "rain_active st'"
    using st2 by auto
  show ?case using outs len ih fin by (simp add: rain_count_Cons)
qed

lemma run_all_clear:
  assumes "snd (run fs cfg st ts) = Inr st'" and "\<forall>t \<in> set ts. clear_tick cfg t"
  shows "rain_count (fst (run fs cfg st ts)) = 0
         \<and> rain_active st' = (rain_active st \<and> ts = [])"
  using assms
proof (induction ts arbitrary: st)
  case Nil
  then show ?case by (simp add: rain_count_def)
next
  case (Cons t ts)
  from run_Cons_ok [OF Cons.prems(1)] obtain out st2 where
    step: "tick_step fs cfg st t = (out, Inr st2)" and
    rest: "snd (run fs cfg st2 ts) = Inr st'" and
    outs: "fst (run fs cfg st (t # ts)) = out # fst (run fs cfg st2 ts)" by blast
  from tick_step_ok [OF step] obtain st1 where
    d: "handle_daily_push fs cfg st t = Inr (st1, daily_out out)" and
    r: "handle_rain_alert cfg st1 t = Inr (st2, rain_out out)" by blast
  from Cons.prems(2) have q: "clear_tick cfg t" by simp
  from rain_step_clear [OF q, of st1] r
  have st2: "\<not> rain_active st2" and len: "rain_out out = []" by auto
  from Cons.IH [OF rest] Cons.prems(2)
  have ih: "rain_count (fst (run fs cfg st2 ts)) = 0" and fin: "\<not> rain_active st'"
    using st2 by auto
  show ?case using outs len ih fin by (simp add: rain_count_Cons)
qed

lemma run_append:
  "run fs cfg st (xs @ ys) =
     (case run fs cfg st xs of
        (o1, Inl e) \<Rightarrow> (o1, Inl e)
      | (o1, Inr st1) \<Rightarrow> (case run fs cfg st1 ys of (o2, r) \<Rightarrow> (o1 @ o2, r)))"
  by (induction xs arbitrary: st) (auto split: prod.splits sum.splits)

lemma run_append_ok:
  assumes "snd (run fs cfg st (xs @ ys)) = Inr st'"
  shows "\<exists>st1. snd (run fs cfg st xs) = Inr st1 \<and> snd (run fs cfg st1 ys) = Inr st'
           \<and> fst (run fs cfg st (xs @ ys)) = fst (run fs cfg st xs) @ fst (run fs cfg st1 ys)"
  using assms by (auto simp: run_append split: prod.splits sum.splits)

lemma rain_count_append: "rain_count (xs @ ys) = rain_count xs + rain_count ys"
  by (simp add: rain_count_def)

lemma run_rearm:
  assumes ok: "snd (run fs cfg st (qs1 @ cs @ qs2)) = Inr st'"
    and q1: "\<forall>t \<in> set qs1. qualifying_tick cfg t" "qs1 \<noteq> []"
    and c: "\<forall>t \<in> set cs. clear_tick cfg t" "cs \<noteq> []"
    and q2: "\<forall>t \<in> set qs2. qualifying_tick cfg t" "qs2 \<noteq> []"
    and init: "\<not> rain_active st"
  shows "rain_count (fst (run fs cfg st (qs1 @ cs @ qs2))) = 2"
proof -
  from run_append_ok [OF ok] obtain st1 where
    a1: "snd (run fs cfg st qs1) = Inr st1" and
    a2: "snd (run fs cfg st1 (cs @ qs2)) = Inr st'" and
    a3: "fst (run fs cfg st (qs1 @ cs @ qs2)) = fst (run fs cfg st qs1) @ fst (run fs cfg st1 (cs @ qs2))"
    by blast
  from run_append_ok [OF a2] obtain st2 where
    b1: "snd (run fs cfg st1 cs) = Inr st2" and
    b2: "snd (run fs cfg st2 qs2) = Inr st'" and
    b3: "fst (run fs cfg st1 (cs @ qs2)) = fst (run fs cfg st1 cs) @ fst (run fs cfg st2 qs2)"
    by blast
  from run_all_qualifying [OF a1 q1(1)] q1(2) init
  have n1: "rain_count (fst (run fs cfg st qs1)) = 1" by simp
  from run_all_clear [OF b1 c(1)] c(2)
  have n2: "rain_count (fst (run fs cfg st1 cs)) = 0" and s2: "\<not> rain_active st2" by simp_all
  from run_all_qualifying [OF b2 q2(1)] q2(2) s2
  have n3: "rain_count (fst (run fs cfg st2 qs2)) = 1" by simp
  show ?thesis by (simp add: a3 b3 rain_count_append n1 n2 n3)
qed


subsection \<open>The sample iterations\<close>

lemmas keyword_defs = kw_shower_def kw_moderate_rain_def kw_heavy_rain_def kw_rainstorm_def
  kw_extreme_rainfall_def ch_rain_def txt_light_rain_def txt_sunny_def txt_overcast_def
  rain_keywords_def severe_rain_keywords_def other_severe_keywords_def code_200_def

lemma rain_check_tick_rain: "rain_check cfg0 tick_rain = Some [to_forecast h16]"
  by (simp add: rain_check_def cfg0_def tick_rain_def h15_def h16_def h17_def keyword_defs
        get_hourly_weather_def get_default_def in_window_def six_hours_def
        detected_forecasts_def qualifying_def any_in_def to_forecast_def)

lemma rain_check_tick_dry: "rain_check cfg0 tick_dry = Some []"
  by (simp add: rain_check_def cfg0_def tick_dry_def h15_def h17_def keyword_defs
        get_hourly_weather_def get_default_def in_window_def six_hours_def
        detected_forecasts_def qualifying_def any_in_def)

lemma qualifying_tick_rain: "qualifying_tick cfg0 tick_rain"
  by (simp add: qualifying_tick_def rain_check_tick_rain)

lemma clear_tick_dry: "clear_tick cfg0 tick_dry"
  by (simp add: clear_tick_def rain_check_tick_dry)

lemma daily_idle:
  "now_hour t \<noteq> daily_push_hour cfg \<Longrightarrow> handle_daily_push fs cfg st t = Inr (st, [])"
  by (simp add: handle_daily_push_def)

lemma sleep_tick_rain: "sleep_seconds cfg0 tick_rain = Inr 600"
  by (simp add: sleep_seconds_def next_minute_def cfg0_def tick_rain_def)

lemma sleep_tick_dry: "sleep_seconds cfg0 tick_dry = Inr 600"
  by (simp add: sleep_seconds_def next_minute_def cfg0_def tick_dry_def)

lemma tick_step_rain:
  "\<exists>cards. tick_step fs cfg0 st tick_rain =
             (\<lparr>daily_out = [], rain_out = cards\<rparr>, Inr (st\<lparr>rain_active := True\<rparr>))
           \<and> length cards = (if rain_active st then 0 else 1)"
proof -
  have d: "handle_daily_push fs cfg0 st tick_rain = Inr (st, [])"
    by (rule daily_idle) (simp add: cfg0_def tick_rain_def)
  from rain_step_qualifying [OF qualifying_tick_rain, of st] obtain cards where
    r: "handle_rain_alert cfg0 st tick_rain = Inr (st\<lparr>rain_active := True\<rparr>, cards)" and
    l: "length cards = (if rain_active st then 0 else 1)" by blast
  show ?thesis using l by (simp add: tick_step_def d r sleep_tick_rain)
qed

lemma tick_step_dry:
  "tick_step fs cfg0 st tick_dry =
     (\<lparr>daily_out = [], rain_out = []\<rparr>, Inr (st\<lparr>rain_active := False\<rparr>))"
proof -
  have d: "handle_daily_push fs cfg0 st tick_dry = Inr (st, [])"
    by (rule daily_idle) (simp add: cfg0_def tick_dry_def)
  show ?thesis
    by (simp add: tick_step_def d rain_step_clear [OF clear_tick_dry] sleep_tick_dry)
qed

lemma run_rain_ok:
  "snd (run fs cfg0 st [tick_rain]) = Inr (st\<lparr>rain_active := True\<rparr>)"
  using tick_step_rain [of fs st] by auto

lemma run_rain_rain_ok:
  "snd (run fs cfg0 st [tick_rain, tick_rain]) = Inr (st\<lparr>rain_active := True\<rparr>)"
  using tick_step_rain [of fs st] tick_step_rain [of fs "st\<lparr>rain_active := True\<rparr>"] by auto

lemma run_rain_dry_rain_ok:
  "snd (run fs cfg0 st [tick_rain, tick_dry, tick_rain]) = Inr (st\<lparr>rain_active := True\<rparr>)"
  using tick_step_rain [of fs st] tick_step_rain [of fs "st\<lparr>rain_active := False\<rparr>"]
  by (auto simp: tick_step_dry)

text \<open>
  The hysteresis of the rain handler once the stray parentheses of lines 272 and 293 are
  removed. Every call of that handler that returns posts at most one card, and posts
  one exactly when the iteration is qualifying and \<open>rain_active\<close> was false; the flag is
  true afterwards. On a qualifying iteration the handler returns with the flag true; on a
  clear iteration it returns with the flag false and posts nothing. For a run of the loop
  that ends without an exception: iterations that are all qualifying, started with the
  flag false, post exactly one alert; qualifying iterations, then clear ones, then
  qualifying ones post exactly two. An iteration is qualifying or clear only when its rain
  check runs, that is when the minute is a multiple of the interval and the fetch returns.
\<close>

theorem rain_hysteresis:
  "(handle_rain_alert cfg st t = Inr (st', cards) \<longrightarrow>
      (cards \<noteq> [] \<longleftrightarrow> qualifying_tick cfg t \<and> \<not> rain_active st)
      \<and> length cards \<le> 1 \<and> (cards \<noteq> [] \<longrightarrow> rain_active st'))
   \<and> (qualifying_tick cfg tq \<longrightarrow>
        (\<exists>cs. handle_rain_alert cfg st tq = Inr (st\<lparr>rain_active := True\<rparr>, cs)
              \<and> length cs = (if rain_active st then 0 else 1)))
   \<and> (clear_tick cfg tc \<longrightarrow>
        handle_rain_alert cfg st tc = Inr (st\<lparr>rain_active := False\<rparr>, []))
   \<and> (snd (run fs cfg st ts) = Inr st1 \<and> (\<forall>u \<in> set ts. qualifying_tick cfg u)
        \<and> ts \<noteq> [] \<and> \<not> rain_active st \<longrightarrow>
        rain_count (fst (run fs cfg st ts)) = 1 \<and> rain_active st1)
   \<and> (snd (run fs cfg st (qs1 @ cls @ qs2)) = Inr st2
        \<and> (\<forall>u \<in> set qs1. qualifying_tick cfg u) \<and> qs1 \<noteq> []
        \<and> (\<forall>u \<in> set cls. clear_tick cfg u) \<and> cls \<noteq> []
        \<and> (\<forall>u \<in> set qs2. qualifying_tick cfg u) \<and> qs2 \<noteq> []
        \<and> \<not> rain_active st \<longrightarrow>
        rain_count (fst (run fs cfg st (qs1 @ cls @ qs2))) = 2)"
proof (intro conjI impI)
  assume a: "handle_rain_alert cfg st t = Inr (st', cards)"
  show "(cards \<noteq> []) = (qualifying_tick cfg t \<and> \<not> rain_active st)"
    using rain_step_emits [OF a] by blast
  show "length cards \<le> 1" using rain_step_emits [OF a] by blast
next
  assume "handle_rain_alert cfg st t = Inr (st', cards)" and "cards \<noteq> []"
  then show "rain_active st'" using rain_step_emits by blast
next
  assume "qualifying_tick cfg tq"
  then show "\<exists>cs. handle_rain_alert cfg st tq = Inr (st\<lparr>rain_active := True\<rparr>, cs)
               \<and> length cs = (if rain_active st then 0 else 1)"
    by (rule rain_step_qualifying)
next
  assume "clear_tick cfg tc"
  then show "handle_rain_alert cfg st tc = Inr (st\<lparr>rain_active := False\<rparr>, [])"
    by (rule rain_step_clear)
next
  assume a: "snd (run fs cfg st ts) = Inr st1 \<and> (\<forall>u \<in> set ts. qualifying_tick cfg u)
        \<and> ts \<noteq> [] \<and> \<not> rain_active st"
  then have ok: "snd (run fs cfg st ts) = Inr st1" and q: "\<forall>u \<in> set ts. qualifying_tick cfg u"
    by blast+
  from run_all_qualifying [OF ok q] a
  show "rain_count (fst (run fs cfg st ts)) = 1" and "rain_active st1" by simp_all
next
  assume a: "snd (run fs cfg st (qs1 @ cls @ qs2)) = Inr st2
        \<and> (\<forall>u \<in> set qs1. qualifying_tick cfg u) \<and> qs1 \<noteq> []
        \<and> (\<forall>u \<in> set cls. clear_tick cfg u) \<and> cls \<noteq> []
        \<and> (\<forall>u \<in> set qs2. qualifying_tick cfg u) \<and> qs2 \<noteq> []
        \<and> \<not> rain_active st"
  show "rain_count (fst (run fs cfg st (qs1 @ cls @ qs2))) = 2"
    by (rule run_rearm [of fs cfg st qs1 cls qs2 st2]) (use a in blast)+
qed

theorem rain_hysteresis_witness:
  "qualifying_tick cfg0 tick_rain \<and> clear_tick cfg0 tick_dry \<and> \<not> rain_active init_state
   \<and> snd (run float_str0 cfg0 init_state [tick_rain, tick_rain])
       = Inr (init_state\<lparr>rain_active := True\<rparr>)
   \<and> rain_count (fst (run float_str0 cfg0 init_state [tick_rain, tick_rain])) = 1
   \<and> snd (run float_str0 cfg0 init_state ([tick_rain] @ [tick_dry] @ [tick_rain]))
       = Inr (init_state\<lparr>rain_active := True\<rparr>)
   \<and> rain_count (fst (run float_str0 cfg0 init_state ([tick_rain] @ [tick_dry] @ [tick_rain]))) = 2
   \<and> handle_rain_alert cfg0 init_state tick_dry = Inr (init_state\<lparr>rain_active := False\<rparr>, [])
   \<and> (\<exists>cs. handle_rain_alert cfg0 init_state tick_rain = Inr (init_state\<lparr>rain_active := True\<rparr>, cs)
            \<and> length cs = 1)"
proof -
  have i: "\<not> rain_active init_state" by (simp add: init_state_def)
  have r2: "snd (run float_str0 cfg0 init_state [tick_rain, tick_rain])
       = Inr (init_state\<lparr>rain_active := True\<rparr>)" by (rule run_rain_rain_ok)
  have r3: "snd (run float_str0 cfg0 init_state ([tick_rain] @ [tick_dry] @ [tick_rain]))
       = Inr (init_state\<lparr>rain_active := True\<rparr>)" using run_rain_dry_rain_ok by simp
  note h = rain_hysteresis [of cfg0 init_state tick_dry "init_state\<lparr>rain_active := False\<rparr>" "[]"
      tick_rain tick_dry float_str0 "[tick_rain, tick_rain]" "init_state\<lparr>rain_active := True\<rparr>"
      "[tick_rain]" "[tick_dry]" "[tick_rain]" "init_state\<lparr>rain_active := True\<rparr>"]
  show ?thesis using h i r2 r3 qualifying_tick_rain clear_tick_dry by simp
qed

section \<open>At most one daily digest per date\<close>

lemma handle_rain_alert_last_date:
  "handle_rain_alert cfg st t = Inr (st', cards) \<Longrightarrow>
     last_daily_push_date st' = last_daily_push_date st"
  by (auto simp: handle_rain_alert_def Let_def push_to_feishu_def
           split: if_splits option.splits list.splits sum.splits)

lemma daily_step_emits:
  assumes "handle_daily_push fs cfg st t = Inr (st', cards)" and "cards \<noteq> []"
  shows "now_hour t = daily_push_hour cfg \<and> now_minute t = daily_push_minute cfg
         \<and> last_daily_push_date st \<noteq> Some (now_date t)
         \<and> last_daily_push_date st' = Some (now_date t) \<and> length cards = 1"
  using assms
  by (auto simp: handle_daily_push_def Let_def push_to_feishu_def
           split: if_splits option.splits list.splits sum.splits)

lemma daily_step_silent:
  assumes "handle_daily_push fs cfg st t = Inr (st', cards)" and "cards = []"
  shows "st' = st"
  using assms
  by (auto simp: handle_daily_push_def Let_def push_to_feishu_def
           split: if_splits option.splits list.splits sum.splits)

lemma daily_step_done:
  assumes "last_daily_push_date st = Some (now_date t)"
  shows "handle_daily_push fs cfg st t = Inr (st, [])"
  using assms by (simp add: handle_daily_push_def)

lemma daily_step_off_minute:
  assumes "now_hour t \<noteq> daily_push_hour cfg \<or> now_minute t \<noteq> daily_push_minute cfg"
  shows "handle_daily_push fs cfg st t = Inr (st, [])"
  using assms by (auto simp add: handle_daily_push_def)

lemma tick_step_daily:
  "tick_step fs cfg st t = (out, r) \<Longrightarrow>
     length (daily_out out) \<le> 1
     \<and> (daily_out out \<noteq> [] \<longrightarrow> last_daily_push_date st \<noteq> Some (now_date t))
     \<and> (\<forall>st2. r = Inr st2 \<longrightarrow>
           (if daily_out out = [] then last_daily_push_date st2 = last_daily_push_date st
            else last_daily_push_date st2 = Some (now_date t)))"
proof -
  assume a: "tick_step fs cfg st t = (out, r)"
  show ?thesis
  proof (cases "handle_daily_push fs cfg st t")
    case (Inl e)
    with a show ?thesis by (auto simp: tick_step_def)
  next
    case (Inr p)
    obtain st1 daily where p: "p = (st1, daily)" by (cases p)
    have d: "handle_daily_push fs cfg st t = Inr (st1, daily)" using Inr p by simp
    have do: "daily_out out = daily" using a d
      by (auto simp: tick_step_def split: sum.splits prod.splits)
    have l1: "length daily \<le> 1" using daily_step_emits [OF d] by (cases "daily = []") auto
    have l2: "daily \<noteq> [] \<longrightarrow> last_daily_push_date st \<noteq> Some (now_date t)"
      using daily_step_emits [OF d] by blast
    have l3: "if daily = [] then last_daily_push_date st1 = last_daily_push_date st
            else last_daily_push_date st1 = Some (now_date t)"
      using daily_step_emits [OF d] daily_step_silent [OF d] by auto
    have l4: "\<forall>st2. r = Inr st2 \<longrightarrow> last_daily_push_date st2 = last_daily_push_date st1"
      using a d handle_rain_alert_last_date [of cfg st1 t]
      by (auto simp: tick_step_def split: sum.splits prod.splits if_splits)
    show ?thesis using do l1 l2 l3 l4 by auto
  qed
qed

lemma daily_on_Nil [simp]: "daily_on d [] outs = 0" "daily_on d ts [] = 0"
  by (simp_all add: daily_on_def daily_count_def)

lemma daily_on_Cons:
  "daily_on d (t # ts) (out # outs) =
     (if now_date t = d then length (daily_out out) else 0) + daily_on d ts outs"
  by (simp add: daily_on_def daily_count_def)

lemma daily_on_other:
  "\<forall>t \<in> set ts. now_date t \<noteq> d \<Longrightarrow> daily_on d ts outs = 0"
proof (induction ts arbitrary: outs)
  case Nil
  then show ?case by simp
next
  case (Cons t ts)
  then show ?case by (cases outs) (simp_all add: daily_on_Cons)
qed

lemma run_Cons_fst:
  "tick_step fs cfg st t = (out, r) \<Longrightarrow>
     fst (run fs cfg st (t # ts)) =
       out # (case r of Inl e \<Rightarrow> [] | Inr st2 \<Rightarrow> fst (run fs cfg st2 ts))"
  by (auto split: sum.splits prod.splits)

lemma run_after_push:
  assumes "last_daily_push_date st = Some d" and "\<forall>t \<in> set ts. d \<le> now_date t"
    and "sorted (map now_date ts)"
  shows "daily_on d ts (fst (run fs cfg st ts)) = 0"
  using assms
proof (induction ts arbitrary: st)
  case Nil
  then show ?case by simp
next
  case (Cons t ts)
  obtain out r where step: "tick_step fs cfg st t = (out, r)" by (cases "tick_step fs cfg st t")
  note outs = run_Cons_fst [OF step, of ts]
  note td = tick_step_daily [OF step]
  show ?case
  proof (cases r)
    case (Inl e)
    show ?thesis
    proof (cases "now_date t = d")
      case True
      with td Cons.prems(1) have "daily_out out = []" by auto
      with outs Inl show ?thesis by (simp add: daily_on_Cons)
    next
      case False
      with outs Inl show ?thesis by (simp add: daily_on_Cons)
    qed
  next
    case (Inr st2)
    show ?thesis
    proof (cases "now_date t = d")
      case True
      with td Cons.prems(1) have e: "daily_out out = []" by auto
      with td Inr Cons.prems(1) have "last_daily_push_date st2 = Some d" by auto
      from Cons.IH [OF this] Cons.prems(2,3)
      have "daily_on d ts (fst (run fs cfg st2 ts)) = 0" by simp
      with outs Inr e show ?thesis by (simp add: daily_on_Cons)
    next
      case False
      show ?thesis
      proof (cases "daily_out out = []")
        case True
        with td Inr Cons.prems(1) have "last_daily_push_date st2 = Some d" by auto
        from Cons.IH [OF this] Cons.prems(2,3)
        have "daily_on d ts (fst (run fs cfg st2 ts)) = 0" by simp
        with outs Inr False show ?thesis by (simp add: daily_on_Cons)
      next
        case nonempty: False
        from False Cons.prems(2) have "d < now_date t" by simp
        with Cons.prems(3) have "\<forall>u \<in> set ts. now_date u \<noteq> d" by auto
        then have "daily_on d ts (fst (run fs cfg st2 ts)) = 0" by (rule daily_on_other)
        with outs Inr False show ?thesis by (simp add: daily_on_Cons)
      qed
    qed
  qed
qed


lemma run_daily_once:
  assumes "sorted (map now_date ts)"
  shows "daily_on d ts (fst (run fs cfg st ts)) \<le> 1"
  using assms
proof (induction ts arbitrary: st)
  case Nil
  then show ?case by simp
next
  case (Cons t ts)
  obtain out r where step: "tick_step fs cfg st t = (out, r)" by (cases "tick_step fs cfg st t")
  note outs = run_Cons_fst [OF step, of ts]
  note td = tick_step_daily [OF step]
  from Cons.prems have srt: "sorted (map now_date ts)" and ge: "\<forall>u \<in> set ts. now_date t \<le> now_date u"
    by auto
  show ?case
  proof (cases r)
    case (Inl e)
    with outs td show ?thesis by (simp add: daily_on_Cons)
  next
    case (Inr st2)
    show ?thesis
    proof (cases "now_date t = d \<and> daily_out out \<noteq> []")
      case True
      with td Inr have "last_daily_push_date st2 = Some d" by auto
      from run_after_push [OF this _ srt] ge True
      have "daily_on d ts (fst (run fs cfg st2 ts)) = 0" by simp
      with outs Inr td show ?thesis by (simp add: daily_on_Cons)
    next
      case False
      have "daily_on d ts (fst (run fs cfg st2 ts)) \<le> 1" using srt by (rule Cons.IH)
      with outs Inr False show ?thesis by (auto simp add: daily_on_Cons)
    qed
  qed
qed


subsection \<open>The sample digest\<close>

lemma now_date_tick_digest: "now_date tick_digest = 0"
  by (simp add: tick_digest_def)

lemma daily_weather_tick_digest:
  "get_daily_weather (daily_resp tick_digest) = Some [day0, day1, day2]"
  by (simp add: tick_digest_def get_daily_weather_def get_default_def)

lemma classify_day0: "classify_day float_str0 0 day0 no_alerts = Inr no_alerts"
  by (simp add: classify_day_def day0_def keyword_defs is_rain_def any_in_def get_default_def
        day_map_def no_alerts_def)

lemma classify_day1:
  "classify_day float_str0 0 day1 no_alerts =
     Inr (no_alerts\<lparr>rain_alerts :=
                       [rain_line float_str0 [0x660E, 0x5929] kw_moderate_rain (Finite 12)],
                     rain_days_indices := [1]\<rparr>)"
  by (simp add: classify_day_def day1_def keyword_defs is_rain_def any_in_def get_default_def
        day_map_def no_alerts_def)

lemma classify_day2: "classify_day float_str0 0 day2 a = Inr a"
  by (simp add: classify_day_def day2_def keyword_defs is_rain_def any_in_def get_default_def
        day_map_def)

lemma classify_sample:
  "classify_loop float_str0 0 [day0, day1, day2] no_alerts =
     Inr (no_alerts\<lparr>rain_alerts :=
                       [rain_line float_str0 [0x660E, 0x5929] kw_moderate_rain (Finite 12)],
                     rain_days_indices := [1]\<rparr>)"
  by (simp add: classify_day0 classify_day1 classify_day2)

lemma digest_alerts_sample:
  "digest_alerts float_str0 tick_digest =
     Some (no_alerts\<lparr>rain_alerts :=
                        [rain_line float_str0 [0x660E, 0x5929] kw_moderate_rain (Finite 12)],
                      rain_days_indices := [1]\<rparr>)"
  by (simp add: digest_alerts_def daily_weather_tick_digest now_date_tick_digest classify_sample
        del: classify_loop.simps)

lemma no_alerts_fields:
  "rain_alerts no_alerts = []" "other_severe_alerts no_alerts = []"
  "rain_days_indices no_alerts = []" "severe_days_indices no_alerts = []"
  by (simp_all add: no_alerts_def)

lemma title_sample: "build_title [] [1] = title_warn @ suffix_tomorrow"
  by (simp add: build_title_def title_suffix_def)

lemma daily_push_sample:
  assumes "last_daily_push_date st \<noteq> Some 0"
  shows "\<exists>c. handle_daily_push float_str0 cfg0 st tick_digest =
               Inr (st\<lparr>last_daily_push_date := Some 0\<rparr>, [c])
             \<and> card_title c = title_warn @ suffix_tomorrow"
proof -
  have t: "now_hour tick_digest = daily_push_hour cfg0"
          "now_minute tick_digest = daily_push_minute cfg0"
    by (simp_all add: tick_digest_def cfg0_def)
  show ?thesis using assms
    by (simp add: handle_daily_push_def t now_date_tick_digest daily_weather_tick_digest
          classify_sample push_to_feishu_def title_sample no_alerts_fields Let_def
          del: classify_loop.simps)
qed

lemma rain_check_tick_digest: "rain_check cfg0 tick_digest = Some []"
  by (simp add: rain_check_def cfg0_def tick_digest_def get_hourly_weather_def
        detected_forecasts_def)

lemma sleep_tick_digest: "sleep_seconds cfg0 tick_digest = Inr 600"
  by (simp add: sleep_seconds_def next_minute_def cfg0_def tick_digest_def)

lemma tick_step_digest_first:
  "\<exists>c. tick_step float_str0 cfg0 init_state tick_digest =
         (\<lparr>daily_out = [c], rain_out = []\<rparr>,
          Inr \<lparr>rain_active = False, last_daily_push_date = Some 0\<rparr>)"
proof -
  have "last_daily_push_date init_state \<noteq> Some 0" by (simp add: init_state_def)
  from daily_push_sample [OF this] obtain c where
    d: "handle_daily_push float_str0 cfg0 init_state tick_digest =
          Inr (init_state\<lparr>last_daily_push_date := Some 0\<rparr>, [c])" by blast
  have cl: "clear_tick cfg0 tick_digest" by (simp add: clear_tick_def rain_check_tick_digest)
  have "tick_step float_str0 cfg0 init_state tick_digest =
          (\<lparr>daily_out = [c], rain_out = []\<rparr>,
           Inr (init_state\<lparr>last_daily_push_date := Some 0, rain_active := False\<rparr>))"
    by (simp add: tick_step_def d rain_step_clear [OF cl] sleep_tick_digest)
  then show ?thesis by (auto simp: init_state_def)
qed

lemma tick_step_digest_again:
  "tick_step float_str0 cfg0 \<lparr>rain_active = False, last_daily_push_date = Some 0\<rparr> tick_digest =
     (\<lparr>daily_out = [], rain_out = []\<rparr>,
      Inr \<lparr>rain_active = False, last_daily_push_date = Some 0\<rparr>)"
proof -
  have cl: "clear_tick cfg0 tick_digest" by (simp add: clear_tick_def rain_check_tick_digest)
  show ?thesis
    by (simp add: tick_step_def daily_step_done now_date_tick_digest rain_step_clear [OF cl]
          sleep_tick_digest)
qed

lemma run_digest_twice:
  "daily_on 0 [tick_digest, tick_digest]
     (fst (run float_str0 cfg0 init_state [tick_digest, tick_digest])) = 1"
  using tick_step_digest_first
  by (auto simp: tick_step_digest_again daily_on_Cons now_date_tick_digest)

text \<open>
  Claim C2. The daily handler posts only at the configured hour and minute and only when
  \<open>last_daily_push_date\<close> is not today; when it posts, it posts one card and sets
  \<open>last_daily_push_date\<close> to today, whatever the webhook answers. With
  \<open>last_daily_push_date\<close> equal to today it posts nothing and leaves the state as it is, so
  no later call on the same date posts again. In any run of the loop whose iterations
  have dates that do not decrease, the iterations of one calendar date post at most one
  daily digest, also when the run ends in an exception and from any starting state.
\<close>

theorem daily_push_once:
  "(handle_daily_push fs cfg st t = Inr (st', cards) \<and> cards \<noteq> [] \<longrightarrow>
      now_hour t = daily_push_hour cfg \<and> now_minute t = daily_push_minute cfg
      \<and> last_daily_push_date st \<noteq> Some (now_date t)
      \<and> last_daily_push_date st' = Some (now_date t) \<and> length cards = 1
      \<and> (\<forall>u::tick. now_date u = now_date t \<longrightarrow> handle_daily_push fs cfg st' u = Inr (st', [])))
   \<and> (last_daily_push_date st2 = Some (now_date t2) \<longrightarrow>
        handle_daily_push fs cfg st2 t2 = Inr (st2, []))
   \<and> (sorted (map now_date ts) \<longrightarrow> daily_on d ts (fst (run fs cfg st0 ts)) \<le> 1)"
proof (intro conjI impI allI)
  assume a: "handle_daily_push fs cfg st t = Inr (st', cards) \<and> cards \<noteq> []"
  then have h: "handle_daily_push fs cfg st t = Inr (st', cards)" and n: "cards \<noteq> []"
    by blast+
  note e = daily_step_emits [OF h n]
  show "now_hour t = daily_push_hour cfg" "now_minute t = daily_push_minute cfg"
       "last_daily_push_date st \<noteq> Some (now_date t)"
       "last_daily_push_date st' = Some (now_date t)" "length cards = 1"
    using e by blast+
  fix u :: tick
  assume "now_date u = now_date t"
  with e have "last_daily_push_date st' = Some (now_date u)" by simp
  then show "handle_daily_push fs cfg st' u = Inr (st', [])" by (rule daily_step_done)
next
  assume "last_daily_push_date st2 = Some (now_date t2)"
  then show "handle_daily_push fs cfg st2 t2 = Inr (st2, [])" by (rule daily_step_done)
next
  assume "sorted (map now_date ts)"
  then show "daily_on d ts (fst (run fs cfg st0 ts)) \<le> 1" by (rule run_daily_once)
qed

theorem daily_push_once_witness:
  "(\<exists>c. handle_daily_push float_str0 cfg0 init_state tick_digest
           = Inr (init_state\<lparr>last_daily_push_date := Some 0\<rparr>, [c])
         \<and> handle_daily_push float_str0 cfg0 (init_state\<lparr>last_daily_push_date := Some 0\<rparr>)
             tick_digest = Inr (init_state\<lparr>last_daily_push_date := Some 0\<rparr>, []))
   \<and> sorted (map now_date [tick_digest, tick_digest])
   \<and> daily_on 0 [tick_digest, tick_digest]
        (fst (run float_str0 cfg0 init_state [tick_digest, tick_digest])) = 1"
proof -
  have "last_daily_push_date init_state \<noteq> Some 0" by (simp add: init_state_def)
  from daily_push_sample [OF this] obtain c where
    d: "handle_daily_push float_str0 cfg0 init_state tick_digest =
          Inr (init_state\<lparr>last_daily_push_date := Some 0\<rparr>, [c])" by blast
  have s: "sorted (map now_date [tick_digest, tick_digest])" by simp
  note h = daily_push_once [of float_str0 cfg0 init_state tick_digest
      "init_state\<lparr>last_daily_push_date := Some 0\<rparr>" "[c]"
      "init_state\<lparr>last_daily_push_date := Some 0\<rparr>" tick_digest
      "[tick_digest, tick_digest]" 0 init_state]
  have again: "handle_daily_push float_str0 cfg0 (init_state\<lparr>last_daily_push_date := Some 0\<rparr>)
             tick_digest = Inr (init_state\<lparr>last_daily_push_date := Some 0\<rparr>, [])"
    using h d by (simp add: now_date_tick_digest)
  have le: "daily_on 0 [tick_digest, tick_digest]
        (fst (run float_str0 cfg0 init_state [tick_digest, tick_digest])) \<le> 1"
    using h s by blast
  show ?thesis using d again s run_digest_twice by blast
qed

section \<open>The window of the hourly forecast\<close>

lemma hourly_loop_filter:
  assumes "\<forall>item \<in> set items. fxTime item \<noteq> Missing \<and> fxTime item \<noteq> Unparsable"
    and "\<forall>item \<in> set items. item_in_window now item \<longrightarrow> item_pop item \<noteq> Unparsable"
  shows "hourly_loop now items = Inr (map to_forecast (filter (item_in_window now) items))"
  using assms
proof (induction items)
  case Nil
  then show ?case by simp
next
  case (Cons item items)
  then have ih: "hourly_loop now items = Inr (map to_forecast (filter (item_in_window now) items))"
    by simp
  from Cons.prems(1) obtain t where t: "fxTime item = Parsed t" by (cases "fxTime item") auto
  show ?case
  proof (cases "in_window now t")
    case True
    then have w: "item_in_window now item" by (simp add: item_in_window_def t in_window_def)
    with Cons.prems(2) have "item_pop item \<noteq> Unparsable" by simp
    then show ?thesis using t True w ih
      by (cases "item_pop item") (simp_all add: to_forecast_def)
  next
    case False
    then have w: "\<not> item_in_window now item" by (simp add: item_in_window_def t in_window_def)
    then show ?thesis using t False ih by simp
  qed
qed

lemma item_in_window_iff:
  "item_in_window now item \<longleftrightarrow>
     (\<exists>t. fxTime item = Parsed t \<and> now \<le> t \<and> t \<le> now + 6 * 3600 * 1000000)"
  by (cases "fxTime item") (simp_all add: item_in_window_def six_hours_def)

text \<open>
  Claim C3, as the specification states it, fails: an entry whose time is exactly six
  hours after \<open>now\<close> is returned. The sample entry at 20:30 is fetched at 14:30.
\<close>

theorem hourly_window_counterexample:
  "fxTime h2030 = Parsed (23400000000 + six_hours)
   \<and> get_hourly_weather (Some \<lparr>resp_code = Some code_200, resp_items = Some [h2030]\<rparr>) 23400000000
       = Inr [\<lparr>f_time = [0x32, 0x30, 0x3A, 0x33, 0x30], f_text = txt_sunny, f_pop = 0\<rparr>]"
  by (simp add: h2030_def six_hours_def get_hourly_weather_def get_default_def in_window_def
        strftime_HM_def two_digits_def)

text \<open>
  Claim C3, amended. When the provider answers with code 200, every entry has a time that
  parses and every entry inside the window has a probability that parses or is absent,
  \<open>get_hourly_weather\<close> returns, in the order of the provider, exactly the entries whose
  time \<open>t\<close> satisfies \<open>now \<le> t \<le> now + 6h\<close>, both ends included, each turned into the
  label \<open>HH:MM\<close> of \<open>t\<close> in UTC+8, the condition text and the probability as an integer.
  An entry at exactly \<open>now + 6h\<close> is in the result.
\<close>

theorem hourly_window_closed:
  assumes "resp_code r = Some code_200"
    and "\<forall>item \<in> set (get_default (resp_items r) []).
           fxTime item \<noteq> Missing \<and> fxTime item \<noteq> Unparsable"
    and "\<forall>item \<in> set (get_default (resp_items r) []).
           item_in_window now item \<longrightarrow> item_pop item \<noteq> Unparsable"
  shows "get_hourly_weather (Some r) now =
           Inr (map to_forecast (filter (item_in_window now) (get_default (resp_items r) [])))
         \<and> (\<forall>item. item_in_window now item \<longleftrightarrow>
               (\<exists>t. fxTime item = Parsed t \<and> now \<le> t \<and> t \<le> now + 6 * 3600 * 1000000))
         \<and> (\<forall>item t. fxTime item = Parsed t \<longrightarrow>
               f_time (to_forecast item) =
                 two_digits (((t div 1000000 + 8 * 3600) div 3600) mod 24) @ [0x3A]
                   @ two_digits (((t div 1000000 + 8 * 3600) div 60) mod 60)
               \<and> f_text (to_forecast item) = get_default (item_text item) []
               \<and> f_pop (to_forecast item) = (case item_pop item of Parsed n \<Rightarrow> n | _ \<Rightarrow> 0))
         \<and> (\<forall>item \<in> set (get_default (resp_items r) []).
               fxTime item = Parsed (now + 6 * 3600 * 1000000) \<longrightarrow>
               (\<exists>fs. get_hourly_weather (Some r) now = Inr fs \<and> to_forecast item \<in> set fs))"
proof -
  let ?items = "get_default (resp_items r) []"
  have g: "get_hourly_weather (Some r) now =
             Inr (map to_forecast (filter (item_in_window now) ?items))"
    using assms(1) hourly_loop_filter [OF assms(2,3)] by (simp add: get_hourly_weather_def)
  have w: "\<forall>item. item_in_window now item \<longleftrightarrow>
               (\<exists>t. fxTime item = Parsed t \<and> now \<le> t \<and> t \<le> now + 6 * 3600 * 1000000)"
    using item_in_window_iff by blast
  have f: "\<forall>item t. fxTime item = Parsed t \<longrightarrow>
               f_time (to_forecast item) =
                 two_digits (((t div 1000000 + 8 * 3600) div 3600) mod 24) @ [0x3A]
                   @ two_digits (((t div 1000000 + 8 * 3600) div 60) mod 60)
               \<and> f_text (to_forecast item) = get_default (item_text item) []
               \<and> f_pop (to_forecast item) = (case item_pop item of Parsed n \<Rightarrow> n | _ \<Rightarrow> 0)"
    by (simp add: to_forecast_def strftime_HM_def Let_def)
  have e: "\<forall>item \<in> set ?items.
               fxTime item = Parsed (now + 6 * 3600 * 1000000) \<longrightarrow>
               (\<exists>fs. get_hourly_weather (Some r) now = Inr fs \<and> to_forecast item \<in> set fs)"
  proof (intro ballI impI)
    fix item
    assume i: "item \<in> set ?items" and t: "fxTime item = Parsed (now + 6 * 3600 * 1000000)"
    have "item_in_window now item" using t by (simp add: item_in_window_iff)
    with i have "to_forecast item \<in> set (map to_forecast (filter (item_in_window now) ?items))"
      by simp
    with g show "\<exists>fs. get_hourly_weather (Some r) now = Inr fs \<and> to_forecast item \<in> set fs"
      by blast
  qed
  show ?thesis using g w f e by blast
qed

theorem hourly_window_closed_witness:
  "get_hourly_weather (Some \<lparr>resp_code = Some code_200, resp_items = Some [h15, h2030]\<rparr>)
     23400000000 = Inr [to_forecast h15, to_forecast h2030]
   \<and> fxTime h2030 = Parsed (23400000000 + 6 * 3600 * 1000000)"
proof -
  let ?r = "\<lparr>resp_code = Some code_200, resp_items = Some [h15, h2030]\<rparr>"
  have a: "resp_code ?r = Some code_200" by simp
  have b: "\<forall>item \<in> set (get_default (resp_items ?r) []).
           fxTime item \<noteq> Missing \<and> fxTime item \<noteq> Unparsable"
    by (simp add: get_default_def h15_def h2030_def)
  have c: "\<forall>item \<in> set (get_default (resp_items ?r) []).
           item_in_window 23400000000 item \<longrightarrow> item_pop item \<noteq> Unparsable"
    by (simp add: get_default_def h15_def h2030_def)
  have w: "item_in_window 23400000000 h15" "item_in_window 23400000000 h2030"
    by (simp_all add: item_in_window_def h15_def h2030_def six_hours_def)
  have "get_hourly_weather (Some ?r) 23400000000 =
          Inr (map to_forecast (filter (item_in_window 23400000000) (get_default (resp_items ?r) [])))"
    using hourly_window_closed [OF a b c] by blast
  then show ?thesis using w by (simp add: get_default_def) (simp add: h2030_def)
qed

section \<open>Failures of the two fetches\<close>

lemma daily_push_fetch_failed:
  "get_daily_weather (daily_resp t) = None \<Longrightarrow> handle_daily_push fs cfg st t = Inr (st, [])"
  by (simp add: handle_daily_push_def Let_def)

lemma daily_push_webhook:
  "handle_daily_push fs cfg st (t\<lparr>feishu := w\<rparr>) = handle_daily_push fs cfg st t"
  by (auto simp: handle_daily_push_def push_to_feishu_def Let_def
           split: option.splits list.splits sum.splits)

lemma rain_alert_webhook:
  "handle_rain_alert cfg st (t\<lparr>feishu := w\<rparr>) = handle_rain_alert cfg st t"
  by (auto simp: handle_rain_alert_def push_to_feishu_def Let_def
           split: option.splits list.splits sum.splits)

lemma daily_push_attempt:
  assumes "now_hour t = daily_push_hour cfg" and "now_minute t = daily_push_minute cfg"
    and "last_daily_push_date st \<noteq> Some (now_date t)"
    and "digest_alerts fs t = Some a"
  shows "\<exists>c. handle_daily_push fs cfg st t =
               Inr (st\<lparr>last_daily_push_date := Some (now_date t)\<rparr>, [c])
             \<and> card_title c = build_title (severe_days_indices a) (rain_days_indices a)"
  using assms
  by (auto simp: handle_daily_push_def digest_alerts_def push_to_feishu_def Let_def
           split: option.splits list.splits sum.splits)

text \<open>
  Claim C8. \<open>get_daily_weather\<close> returns \<open>None\<close> when the request failed and when the
  code of the provider is not \<open>200\<close>, and a list otherwise, so a failure cannot be taken
  for a result; \<open>get_hourly_weather\<close> returns the empty list in both cases. When the daily
  fetch fails, the daily handler posts nothing and returns the state it was given. At the
  trigger minute of a date not yet marked, with a fetch that succeeds and days that
  parse, it posts one card and marks the date; the state and the cards it returns do not
  depend on what the webhook answers.
\<close>

theorem fetch_failures:
  "get_daily_weather None = None
   \<and> (resp_code r1 \<noteq> Some code_200 \<longrightarrow> get_daily_weather (Some r1) = None)
   \<and> (resp_code r2 = Some code_200 \<longrightarrow>
        get_daily_weather (Some r2) = Some (get_default (resp_items r2) []))
   \<and> get_hourly_weather None now = Inr []
   \<and> (resp_code h1 \<noteq> Some code_200 \<longrightarrow> get_hourly_weather (Some h1) now = Inr [])
   \<and> (get_daily_weather (daily_resp t1) = None \<longrightarrow>
        handle_daily_push fs cfg st t1 = Inr (st, []))
   \<and> (now_hour t2 = daily_push_hour cfg \<and> now_minute t2 = daily_push_minute cfg
        \<and> last_daily_push_date st \<noteq> Some (now_date t2) \<and> digest_alerts fs t2 = Some a \<longrightarrow>
        (\<exists>c. handle_daily_push fs cfg st t2 =
                Inr (st\<lparr>last_daily_push_date := Some (now_date t2)\<rparr>, [c])))
   \<and> handle_daily_push fs cfg st (t3\<lparr>feishu := w\<rparr>) = handle_daily_push fs cfg st t3"
proof (intro conjI impI)
  show "get_daily_weather None = None" by (simp add: get_daily_weather_def)
  show "get_hourly_weather None now = Inr []" by (simp add: get_hourly_weather_def)
  show "handle_daily_push fs cfg st (t3\<lparr>feishu := w\<rparr>) = handle_daily_push fs cfg st t3"
    by (rule daily_push_webhook)
next
  assume "resp_code r1 \<noteq> Some code_200"
  then show "get_daily_weather (Some r1) = None" by (simp add: get_daily_weather_def)
next
  assume "resp_code r2 = Some code_200"
  then show "get_daily_weather (Some r2) = Some (get_default (resp_items r2) [])"
    by (simp add: get_daily_weather_def)
next
  assume "resp_code h1 \<noteq> Some code_200"
  then show "get_hourly_weather (Some h1) now = Inr []" by (simp add: get_hourly_weather_def)
next
  assume "get_daily_weather (daily_resp t1) = None"
  then show "handle_daily_push fs cfg st t1 = Inr (st, [])" by (rule daily_push_fetch_failed)
next
  assume a: "now_hour t2 = daily_push_hour cfg \<and> now_minute t2 = daily_push_minute cfg
        \<and> last_daily_push_date st \<noteq> Some (now_date t2) \<and> digest_alerts fs t2 = Some a"
  then show "\<exists>c. handle_daily_push fs cfg st t2 =
                Inr (st\<lparr>last_daily_push_date := Some (now_date t2)\<rparr>, [c])"
    using daily_push_attempt [of t2 cfg st fs a] by blast
qed

theorem fetch_failures_witness:
  "resp_code \<lparr>resp_code = Some [0x34, 0x30, 0x31], resp_items = Some [day0]\<rparr> \<noteq> Some code_200
   \<and> get_daily_weather (Some \<lparr>resp_code = Some [0x34, 0x30, 0x31], resp_items = Some [day0]\<rparr>) = None
   \<and> get_daily_weather (Some \<lparr>resp_code = Some code_200, resp_items = Some [day0]\<rparr>) = Some [day0]
   \<and> get_hourly_weather (Some \<lparr>resp_code = Some [0x34, 0x30, 0x31], resp_items = Some [h15]\<rparr>) 0 = Inr []
   \<and> get_daily_weather (daily_resp tick_digest_failed) = None
   \<and> handle_daily_push float_str0 cfg0 init_state tick_digest_failed = Inr (init_state, [])
   \<and> now_hour tick_digest = daily_push_hour cfg0 \<and> now_minute tick_digest = daily_push_minute cfg0
   \<and> last_daily_push_date init_state \<noteq> Some (now_date tick_digest)
   \<and> (\<exists>a. digest_alerts float_str0 tick_digest = Some a)
   \<and> (\<exists>c. handle_daily_push float_str0 cfg0 init_state tick_digest =
            Inr (init_state\<lparr>last_daily_push_date := Some 0\<rparr>, [c]))"
proof -
  let ?a = "no_alerts\<lparr>rain_alerts :=
                        [rain_line float_str0 [0x660E, 0x5929] kw_moderate_rain (Finite 12)],
                      rain_days_indices := [1]\<rparr>"
  let ?r1 = "\<lparr>resp_code = Some [0x34, 0x30, 0x31], resp_items = Some [day0]\<rparr>"
  let ?r2 = "\<lparr>resp_code = Some code_200, resp_items = Some [day0]\<rparr>"
  let ?h1 = "\<lparr>resp_code = Some [0x34, 0x30, 0x31], resp_items = Some [h15]\<rparr>"
  note h = fetch_failures [where ?r1.0 = ?r1 and ?r2.0 = ?r2 and now = 0 and ?h1.0 = ?h1
      and ?t1.0 = tick_digest_failed and fs = float_str0 and cfg = cfg0 and st = init_state
      and ?t2.0 = tick_digest and a = ?a and ?t3.0 = tick_digest and w = "\<lambda>c. True"]
  have c1: "resp_code ?r1 \<noteq> Some code_200" "resp_code ?h1 \<noteq> Some code_200"
    by (simp_all add: code_200_def)
  have c2: "resp_code ?r2 = Some code_200" by simp
  have f: "get_daily_weather (daily_resp tick_digest_failed) = None"
    by (simp add: tick_digest_failed_def get_daily_weather_def)
  have t: "now_hour tick_digest = daily_push_hour cfg0"
          "now_minute tick_digest = daily_push_minute cfg0"
          "last_daily_push_date init_state \<noteq> Some (now_date tick_digest)"
    by (simp_all add: tick_digest_def cfg0_def init_state_def)
  have p1: "get_daily_weather (Some ?r1) = None" using h c1 by blast
  have p2: "get_daily_weather (Some ?r2) = Some [day0]" using h c2 by (simp add: get_default_def)
  have p3: "get_hourly_weather (Some ?h1) 0 = Inr []" using h c1 by blast
  have p4: "handle_daily_push float_str0 cfg0 init_state tick_digest_failed = Inr (init_state, [])"
    using h f by blast
  have p5: "\<exists>c. handle_daily_push float_str0 cfg0 init_state tick_digest =
            Inr (init_state\<lparr>last_daily_push_date := Some 0\<rparr>, [c])"
    using h t digest_alerts_sample by (simp add: now_date_tick_digest)
  show ?thesis using c1 p1 p2 p3 f p4 t digest_alerts_sample p5 by blast
qed

section \<open>The title of the daily digest\<close>

lemma subsets_012:
  assumes "S \<subseteq> {0::int, 1, 2}" and "S \<noteq> {}"
  shows "S = {0} \<or> S = {1} \<or> S = {2} \<or> S = {0,1} \<or> S = {1,2} \<or> S = {0,2} \<or> S = {0,1,2}"
proof -
  have "S = (if 0 \<in> S then {0} else {}) \<union> (if 1 \<in> S then {1} else {}) \<union> (if 2 \<in> S then {2} else {})"
    using assms(1) by auto
  then show ?thesis using assms(2)
    by (cases "0 \<in> S"; cases "1 \<in> S"; cases "2 \<in> S") auto
qed

lemma title_suffix_table:
  "title_suffix {0,1,2} = suffix_three_days"
  "title_suffix {0,1} = suffix_today_tomorrow"
  "title_suffix {1,2} = suffix_tomorrow_after"
  "title_suffix {0,2} = suffix_today_after"
  "title_suffix {0} = suffix_today"
  "title_suffix {1} = suffix_tomorrow"
  "title_suffix {2} = suffix_after"
  by (auto simp: title_suffix_def doubleton_eq_iff)

lemmas suffix_defs = suffix_three_days_def suffix_today_tomorrow_def suffix_tomorrow_after_def
  suffix_today_after_def suffix_today_def suffix_tomorrow_def suffix_after_def

text \<open>Which days are in the set can be read back from the suffix.\<close>

lemma title_suffix_decode:
  assumes "S \<subseteq> {0, 1, 2}" and "S \<noteq> {}"
  shows "(0 \<in> S \<longleftrightarrow> title_suffix S \<in> {suffix_three_days, suffix_today_tomorrow,
                                         suffix_today_after, suffix_today})
       \<and> (1 \<in> S \<longleftrightarrow> title_suffix S \<in> {suffix_three_days, suffix_today_tomorrow,
                                         suffix_tomorrow_after, suffix_tomorrow})
       \<and> (2 \<in> S \<longleftrightarrow> title_suffix S \<in> {suffix_three_days, suffix_tomorrow_after,
                                         suffix_today_after, suffix_after})"
  using subsets_012 [OF assms]
proof (elim disjE)
  assume "S = {0}" then show ?thesis by (simp add: title_suffix_table suffix_defs)
next
  assume "S = {1}" then show ?thesis by (simp add: title_suffix_table suffix_defs)
next
  assume "S = {2}" then show ?thesis by (simp add: title_suffix_table suffix_defs)
next
  assume "S = {0,1}" then show ?thesis by (simp add: title_suffix_table suffix_defs)
next
  assume "S = {1,2}" then show ?thesis by (simp add: title_suffix_table suffix_defs)
next
  assume "S = {0,2}" then show ?thesis by (simp add: title_suffix_table suffix_defs)
next
  assume "S = {0,1,2}" then show ?thesis by (simp add: title_suffix_table suffix_defs)
qed

lemma title_suffix_inj:
  assumes "S \<subseteq> {0, 1, 2}" "S \<noteq> {}" "S' \<subseteq> {0, 1, 2}" "S' \<noteq> {}"
    and "title_suffix S' = title_suffix S"
  shows "S' = S"
proof -
  from title_suffix_decode [OF assms(1,2)] title_suffix_decode [OF assms(3,4)] assms(5)
  have "(0 \<in> S \<longleftrightarrow> 0 \<in> S') \<and> (1 \<in> S \<longleftrightarrow> 1 \<in> S') \<and> (2 \<in> S \<longleftrightarrow> 2 \<in> S')" by simp
  with assms(1,3) show ?thesis by blast
qed

lemma title_suffix_range:
  assumes "S \<subseteq> {0, 1, 2}" and "S \<noteq> {}"
  shows "title_suffix S \<in> {suffix_three_days, suffix_today_tomorrow, suffix_tomorrow_after,
                           suffix_today_after, suffix_today, suffix_tomorrow, suffix_after}"
  using subsets_012 [OF assms] by (auto simp: title_suffix_table)

lemma day_map_dom: "day_map d \<noteq> None \<longleftrightarrow> d \<in> {0, 1, 2}"
  by (simp add: day_map_def)

lemma classify_day_indices:
  assumes "classify_day fs today df acc = Inr acc'"
  shows "\<exists>raw date. fxDate df = Parsed (raw, date)
           \<and> rain_days_indices acc' = rain_days_indices acc @
               (if is_rain (text_to_check df) (precip_mm df) \<and> day_map (date - today) \<noteq> None
                then [date - today] else [])
           \<and> length (rain_alerts acc') = length (rain_alerts acc) +
               (if is_rain (text_to_check df) (precip_mm df) then 1 else 0)
           \<and> severe_days_indices acc' = severe_days_indices acc @
               (if any_in other_severe_keywords (text_to_check df)
                   \<and> day_map (date - today) \<noteq> None
                then [date - today] else [])"
proof -
  from assms have p: "precip df \<noteq> Unparsable"
    by (auto simp: classify_day_def split: parsed.splits)
  from assms p obtain raw date where d: "fxDate df = Parsed (raw, date)"
    by (cases "fxDate df"; cases "precip df") (auto simp: classify_day_def Let_def)
  let ?d = "date - today"
  let ?R = "is_rain (text_to_check df) (precip_mm df)"
  let ?S = "any_in other_severe_keywords (text_to_check df)"
  let ?p = "get_default (day_map ?d) raw"
  let ?td = "get_default (textDay df) []"
  let ?acc1 = "if ?R then
                 acc\<lparr>rain_alerts := rain_alerts acc @ [rain_line fs ?p ?td (precip_mm df)],
                     rain_days_indices :=
                       (if day_map ?d \<noteq> None then rain_days_indices acc @ [?d]
                        else rain_days_indices acc)\<rparr>
               else acc"
  let ?acc2 = "if ?S then
                 ?acc1\<lparr>other_severe_alerts := other_severe_alerts ?acc1 @ [severe_line ?p ?td],
                       severe_days_indices :=
                         (if day_map ?d \<noteq> None then severe_days_indices ?acc1 @ [?d]
                          else severe_days_indices ?acc1)\<rparr>
               else ?acc1"
  have e: "classify_day fs today df acc = Inr ?acc2"
    using d p
    by (cases "precip df")
       (simp_all add: classify_day_def Let_def text_to_check_def precip_mm_def)
  with assms have a: "acc' = ?acc2" by simp
  have r: "rain_days_indices ?acc2 = rain_days_indices acc @
               (if ?R \<and> day_map ?d \<noteq> None then [?d] else [])" by simp
  have l: "length (rain_alerts ?acc2) = length (rain_alerts acc) + (if ?R then 1 else 0)"
    by simp
  have v: "severe_days_indices ?acc2 = severe_days_indices acc @
               (if ?S \<and> day_map ?d \<noteq> None then [?d] else [])" by simp
  show ?thesis using d r l v unfolding a by blast
qed

lemma classify_loop_rain_days:
  assumes "classify_loop fs today items acc = Inr al"
  shows "set (rain_days_indices al) = set (rain_days_indices acc) \<union>
           {d. day_map d \<noteq> None \<and> (\<exists>df \<in> set items. \<exists>raw date. fxDate df = Parsed (raw, date)
                  \<and> date - today = d \<and> is_rain (text_to_check df) (precip_mm df))}
         \<and> length (rain_alerts al) = length (rain_alerts acc) +
             length (filter (\<lambda>df. is_rain (text_to_check df) (precip_mm df)) items)
         \<and> set (severe_days_indices al) = set (severe_days_indices acc) \<union>
           {d. day_map d \<noteq> None \<and> (\<exists>df \<in> set items. \<exists>raw date. fxDate df = Parsed (raw, date)
                  \<and> date - today = d \<and> any_in other_severe_keywords (text_to_check df))}"
  using assms
proof (induction items arbitrary: acc)
  case Nil
  then show ?case by simp
next
  case (Cons df items)
  from Cons.prems obtain acc' where
    a: "classify_day fs today df acc = Inr acc'" and
    r: "classify_loop fs today items acc' = Inr al"
    by (auto split: sum.splits)
  let ?R = "\<lambda>x. is_rain (text_to_check x) (precip_mm x)"
  let ?S = "\<lambda>x. any_in other_severe_keywords (text_to_check x)"
  from classify_day_indices [OF a] obtain raw date where
    d: "fxDate df = Parsed (raw, date)" and
    i: "rain_days_indices acc' = rain_days_indices acc @
               (if ?R df \<and> day_map (date - today) \<noteq> None then [date - today] else [])" and
    l: "length (rain_alerts acc') = length (rain_alerts acc) + (if ?R df then 1 else 0)" and
    v: "severe_days_indices acc' = severe_days_indices acc @
               (if ?S df \<and> day_map (date - today) \<noteq> None then [date - today] else [])"
    by blast
  note ih = Cons.IH [OF r]
  let ?X = "\<lambda>P xs. {d. day_map d \<noteq> None \<and> (\<exists>x \<in> set xs. \<exists>raw date.
                 fxDate x = Parsed (raw, date) \<and> date - today = d \<and> P x)}"
  have x: "\<And>P. ?X P (df # items) =
             set (if P df \<and> day_map (date - today) \<noteq> None then [date - today] else [])
               \<union> ?X P items"
    using d by auto
  have "set (rain_days_indices al) = set (rain_days_indices acc') \<union> ?X ?R items"
    using ih by blast
  also have "\<dots> = set (rain_days_indices acc) \<union> ?X ?R (df # items)"
    unfolding x i by (simp only: set_append Un_assoc)
  finally have s: "set (rain_days_indices al) =
                     set (rain_days_indices acc) \<union> ?X ?R (df # items)" .
  have n: "length (rain_alerts al) = length (rain_alerts acc) + length (filter ?R (df # items))"
    using ih l by simp
  have "set (severe_days_indices al) = set (severe_days_indices acc') \<union> ?X ?S items"
    using ih by blast
  also have "\<dots> = set (severe_days_indices acc) \<union> ?X ?S (df # items)"
    unfolding x v by (simp only: set_append Un_assoc)
  finally have w: "set (severe_days_indices al) =
                     set (severe_days_indices acc) \<union> ?X ?S (df # items)" .
  show ?case using s n w by blast
qed

lemma digest_rain_days_subset:
  assumes "digest_alerts fs t = Some a"
  shows "set (rain_days_indices a) \<subseteq> {0, 1, 2}"
proof -
  from assms obtain items where
    "classify_loop fs (now_date t) items no_alerts = Inr a"
    by (auto simp: digest_alerts_def simp del: classify_loop.simps
             split: option.splits list.splits sum.splits)
  from classify_loop_rain_days [OF this]
  have "set (rain_days_indices a) = set (rain_days_indices no_alerts) \<union>
           {d. day_map d \<noteq> None \<and> (\<exists>df \<in> set items. \<exists>raw date. fxDate df = Parsed (raw, date)
                  \<and> date - now_date t = d \<and> is_rain (text_to_check df) (precip_mm df))}"
    by blast
  then have "\<forall>d \<in> set (rain_days_indices a). day_map d \<noteq> None"
    unfolding no_alerts_fields by simp
  then show ?thesis using day_map_dom by blast
qed

text \<open>
  Claim C4. When no day is severe and the set \<open>S\<close> of rain days is a non-empty subset of
  \<open>{0, 1, 2}\<close>, the title is the warning stem followed by the suffix of \<open>S\<close>; the suffix is
  one of the seven phrases, never empty, so the title is not the plain one; each of the
  seven subsets has the phrase the table gives it, and two different subsets never share a
  phrase. The rain days the daily handler collects always form a subset of \<open>{0, 1, 2}\<close>.
\<close>

theorem title_suffix_total:
  assumes "set rain_days = S" and "S \<noteq> {}" and "S \<subseteq> {0, 1, 2}"
  shows "build_title [] rain_days = title_warn @ title_suffix S
         \<and> build_title [] rain_days \<noteq> title_plain
         \<and> title_suffix S \<noteq> []
         \<and> title_suffix S \<in> {suffix_three_days, suffix_today_tomorrow, suffix_tomorrow_after,
                              suffix_today_after, suffix_today, suffix_tomorrow, suffix_after}
         \<and> title_suffix {0, 1, 2} = suffix_three_days
         \<and> title_suffix {0, 1} = suffix_today_tomorrow
         \<and> title_suffix {1, 2} = suffix_tomorrow_after
         \<and> title_suffix {0, 2} = suffix_today_after
         \<and> title_suffix {0} = suffix_today
         \<and> title_suffix {1} = suffix_tomorrow
         \<and> title_suffix {2} = suffix_after
         \<and> (\<forall>S'. S' \<noteq> {} \<and> S' \<subseteq> {0, 1, 2} \<and> title_suffix S' = title_suffix S \<longrightarrow> S' = S)
         \<and> (\<forall>fs t a. digest_alerts fs t = Some a \<longrightarrow> set (rain_days_indices a) \<subseteq> {0, 1, 2})"
proof -
  have ne: "rain_days \<noteq> []" using assms(1,2) by auto
  have t: "build_title [] rain_days = title_warn @ title_suffix S"
    using ne assms(1) by (simp add: build_title_def)
  have r: "title_suffix S \<in> {suffix_three_days, suffix_today_tomorrow, suffix_tomorrow_after,
                              suffix_today_after, suffix_today, suffix_tomorrow, suffix_after}"
    using assms(3,2) by (rule title_suffix_range)
  have p: "build_title [] rain_days \<noteq> title_plain"
    by (simp add: t title_warn_def title_plain_def)
  have e: "title_suffix S \<noteq> []" using r by (auto simp: suffix_defs)
  have i: "\<forall>S'. S' \<noteq> {} \<and> S' \<subseteq> {0, 1, 2} \<and> title_suffix S' = title_suffix S \<longrightarrow> S' = S"
    using title_suffix_inj [OF assms(3,2)] by blast
  have d: "\<forall>fs t a. digest_alerts fs t = Some a \<longrightarrow> set (rain_days_indices a) \<subseteq> {0, 1, 2}"
    using digest_rain_days_subset by blast
  show ?thesis using t p e r i d by (simp add: title_suffix_table)
qed

theorem title_suffix_total_witness:
  "set [2, 0, 2 :: int] = {0, 2} \<and> {0, 2} \<noteq> ({} :: int set) \<and> {0, 2} \<subseteq> {0, 1, 2 :: int}
   \<and> build_title [] [2, 0, 2] = title_warn @ suffix_today_after"
proof -
  have a: "set [2, 0, 2 :: int] = {0, 2}" by auto
  have b: "{0, 2} \<noteq> ({} :: int set)" by simp
  have c: "{0, 2} \<subseteq> {0, 1, 2 :: int}" by simp
  from title_suffix_total [OF a b c] show ?thesis using a by simp
qed

section \<open>Priority of the severe title\<close>

lemma str_in_sublist: "str_in k s = sublist k s"
  by (induction s) (auto simp: sublist_Cons_right)

lemma str_in_iff: "str_in k s \<longleftrightarrow> (\<exists>a b. s = a @ k @ b)"
  by (simp add: str_in_sublist sublist_def)

lemma any_in_iff: "any_in kws s \<longleftrightarrow> (\<exists>k \<in> set kws. \<exists>a b. s = a @ k @ b)"
  by (simp add: any_in_def list_ex_iff str_in_iff)

lemma build_title_sets:
  assumes "set sev = set sev'" and "set rain = set rain'"
  shows "build_title sev rain = build_title sev' rain'"
proof -
  have a: "(sev = []) = (sev' = [])" using assms(1) by (metis set_empty)
  have b: "(rain = []) = (rain' = [])" using assms(2) by (metis set_empty)
  show ?thesis using a b assms(2) by (simp add: build_title_def)
qed

lemma daily_push_title:
  assumes "handle_daily_push fs cfg st t = Inr (st', cards)" and "c \<in> set cards"
  shows "\<exists>a. digest_alerts fs t = Some a
           \<and> card_title c = build_title (severe_days_indices a) (rain_days_indices a)
           \<and> card_template c = template_of (card_title c)"
  using assms
  by (auto simp: handle_daily_push_def digest_alerts_def push_to_feishu_def Let_def
           simp del: classify_loop.simps
           split: if_splits option.splits list.splits sum.splits)

text \<open>
  Claim C5. The title depends on the two lists of day offsets only through their sets.
  With at least one severe day it is the severe-weather warning, whatever the rain days
  are. With no severe day and no rain day it is the plain title, which holds neither the
  warning sign nor the word for warning, so its card is green, while the card of the
  severe title is red. Every card the daily handler posts carries the title so computed
  from the lists of the forecast it fetched.
\<close>

theorem title_priority:
  "(set sev = set sev' \<and> set rain = set rain' \<longrightarrow>
      build_title sev rain = build_title sev' rain')
   \<and> (sev1 \<noteq> [] \<longrightarrow> build_title sev1 rain1 = title_severe)
   \<and> build_title [] [] = title_plain
   \<and> \<not> str_in mark_warning title_plain \<and> \<not> str_in mark_alert_word title_plain
   \<and> template_of title_plain = green \<and> template_of title_severe = red
   \<and> title_severe \<noteq> title_plain
   \<and> (handle_daily_push fs cfg st t = Inr (st', cards) \<and> c \<in> set cards \<longrightarrow>
        (\<exists>a. digest_alerts fs t = Some a
            \<and> card_title c = build_title (severe_days_indices a) (rain_days_indices a)))"
proof (intro conjI impI)
  assume "set sev = set sev' \<and> set rain = set rain'"
  then show "build_title sev rain = build_title sev' rain'"
    using build_title_sets by blast
next
  assume "sev1 \<noteq> []"
  then show "build_title sev1 rain1 = title_severe" by (simp add: build_title_def)
next
  show "build_title [] [] = title_plain" by (simp add: build_title_def)
  show "\<not> str_in mark_warning title_plain"
    by (simp add: mark_warning_def title_plain_def)
  show "\<not> str_in mark_alert_word title_plain"
    by (simp add: mark_alert_word_def title_plain_def)
  show "template_of title_plain = green"
    by (simp add: template_of_def mark_warning_def mark_alert_word_def mark_loudspeaker_def
          title_plain_def)
  show "template_of title_severe = red"
    by (simp add: template_of_def mark_warning_def title_severe_def)
  show "title_severe \<noteq> title_plain" by (simp add: title_severe_def title_plain_def)
next
  assume "handle_daily_push fs cfg st t = Inr (st', cards) \<and> c \<in> set cards"
  then show "\<exists>a. digest_alerts fs t = Some a
            \<and> card_title c = build_title (severe_days_indices a) (rain_days_indices a)"
    using daily_push_title [of fs cfg st t st' cards c] by blast
qed

theorem title_priority_witness:
  "set [1, 1 :: int] = set [1] \<and> set [0, 2 :: int] = set [2, 0]
   \<and> build_title [1, 1] [0, 2] = build_title [1] [2, 0]
   \<and> [1 :: int] \<noteq> [] \<and> build_title [1] [0, 1, 2] = title_severe
   \<and> (\<exists>c. handle_daily_push float_str0 cfg0 init_state tick_digest
            = Inr (init_state\<lparr>last_daily_push_date := Some 0\<rparr>, [c])
          \<and> card_title c = build_title [] [1])"
proof -
  have "last_daily_push_date init_state \<noteq> Some 0" by (simp add: init_state_def)
  from daily_push_sample [OF this] obtain c where
    d: "handle_daily_push float_str0 cfg0 init_state tick_digest =
          Inr (init_state\<lparr>last_daily_push_date := Some 0\<rparr>, [c])" by blast
  note h = title_priority [where sev = "[1, 1]" and sev' = "[1]" and rain = "[0, 2]"
      and rain' = "[2, 0]" and ?sev1.0 = "[1]" and ?rain1.0 = "[0, 1, 2]" and fs = float_str0
      and cfg = cfg0 and st = init_state and t = tick_digest
      and st' = "init_state\<lparr>last_daily_push_date := Some 0\<rparr>" and cards = "[c]" and c = c]
  have s: "set [1, 1 :: int] = set [1]" "set [0, 2 :: int] = set [2, 0]" by auto
  have e: "build_title [1, 1] [0, 2] = build_title [1] [2, 0]" using h s by blast
  have v: "build_title [1] [0, 1, 2] = title_severe" using h by blast
  have "\<exists>a. digest_alerts float_str0 tick_digest = Some a
            \<and> card_title c = build_title (severe_days_indices a) (rain_days_indices a)"
    using h d by simp
  then have "card_title c = build_title [] [1]"
    by (auto simp: digest_alerts_sample no_alerts_fields)
  then show ?thesis using s e v d by blast
qed

section \<open>The rain test of a day\<close>

lemma is_rain_iff:
  "is_rain txt p \<longleftrightarrow>
     (\<exists>k \<in> {kw_shower, kw_moderate_rain, kw_heavy_rain, kw_rainstorm, kw_extreme_rainfall}.
        \<exists>a b. txt = a @ k @ b)
     \<or> (float_ge p 5 \<and> (\<exists>a b. txt = a @ ch_rain @ b))"
  by (simp add: is_rain_def any_in_iff str_in_iff rain_keywords_def)

lemma classify_loop_from_empty:
  assumes "classify_loop fs today items no_alerts = Inr al"
  shows "set (rain_days_indices al) =
           {d. d \<in> {0, 1, 2} \<and> (\<exists>df \<in> set items. \<exists>raw date. fxDate df = Parsed (raw, date)
                  \<and> date - today = d \<and> is_rain (text_to_check df) (precip_mm df))}"
    and "length (rain_alerts al) =
           length (filter (\<lambda>df. is_rain (text_to_check df) (precip_mm df)) items)"
proof -
  note h = classify_loop_rain_days [OF assms]
  from h have "set (rain_days_indices al) = set (rain_days_indices no_alerts) \<union>
           {d. day_map d \<noteq> None \<and> (\<exists>df \<in> set items. \<exists>raw date. fxDate df = Parsed (raw, date)
                  \<and> date - today = d \<and> is_rain (text_to_check df) (precip_mm df))}"
    by blast
  then show "set (rain_days_indices al) =
           {d. d \<in> {0, 1, 2} \<and> (\<exists>df \<in> set items. \<exists>raw date. fxDate df = Parsed (raw, date)
                  \<and> date - today = d \<and> is_rain (text_to_check df) (precip_mm df))}"
    unfolding no_alerts_fields day_map_dom by simp
  from h have "length (rain_alerts al) = length (rain_alerts no_alerts) +
             length (filter (\<lambda>df. is_rain (text_to_check df) (precip_mm df)) items)"
    by blast
  then show "length (rain_alerts al) =
           length (filter (\<lambda>df. is_rain (text_to_check df) (precip_mm df)) items)"
    unfolding no_alerts_fields by simp
qed

text \<open>
  Claim C6. The rain test of a day holds exactly when the day text followed by the night
  text contains one of the five words (shower, moderate rain, heavy rain, rainstorm,
  extreme rainfall), or the amount is at least 5 and the text contains the character for
  rain. The loop of the daily handler adds one rain line for each day that passes the
  test, and the set of rain days it collects is the set of offsets 0, 1 and 2 of the days
  that pass it. For the three sample days (sunny; moderate rain with 12 mm; overcast with
  0 mm) the rain days are \<open>{1}\<close>, no day is severe, and the card posted has the warning
  stem followed by the phrase for rain tomorrow.
\<close>

theorem rain_day_rule:
  "(is_rain txt p \<longleftrightarrow>
      (\<exists>k \<in> {kw_shower, kw_moderate_rain, kw_heavy_rain, kw_rainstorm, kw_extreme_rainfall}.
         \<exists>a b. txt = a @ k @ b)
      \<or> (float_ge p 5 \<and> (\<exists>a b. txt = a @ ch_rain @ b)))
   \<and> (float_ge (Finite q) 5 \<longleftrightarrow> 5 \<le> q)
   \<and> text_to_check df0 = get_default (textDay df0) [] @ get_default (textNight df0) []
   \<and> (classify_loop fs today items no_alerts = Inr al \<longrightarrow>
        set (rain_days_indices al) =
          {d. d \<in> {0, 1, 2} \<and> (\<exists>df \<in> set items. \<exists>raw date. fxDate df = Parsed (raw, date)
                 \<and> date - today = d \<and> is_rain (text_to_check df) (precip_mm df))}
        \<and> length (rain_alerts al) =
            length (filter (\<lambda>df. is_rain (text_to_check df) (precip_mm df)) items))
   \<and> (\<exists>a c. digest_alerts float_str0 tick_digest = Some a
          \<and> set (rain_days_indices a) = {1} \<and> severe_days_indices a = []
          \<and> handle_daily_push float_str0 cfg0 init_state tick_digest
              = Inr (init_state\<lparr>last_daily_push_date := Some 0\<rparr>, [c])
          \<and> card_title c = title_warn @ suffix_tomorrow)"
proof (intro conjI impI)
  show "is_rain txt p \<longleftrightarrow>
      (\<exists>k \<in> {kw_shower, kw_moderate_rain, kw_heavy_rain, kw_rainstorm, kw_extreme_rainfall}.
         \<exists>a b. txt = a @ k @ b)
      \<or> (float_ge p 5 \<and> (\<exists>a b. txt = a @ ch_rain @ b))"
    by (rule is_rain_iff)
  show "float_ge (Finite q) 5 \<longleftrightarrow> 5 \<le> q" by simp
  show "text_to_check df0 = get_default (textDay df0) [] @ get_default (textNight df0) []"
    by (simp add: text_to_check_def)
  have "last_daily_push_date init_state \<noteq> Some 0" by (simp add: init_state_def)
  from daily_push_sample [OF this] obtain c where
    "handle_daily_push float_str0 cfg0 init_state tick_digest =
          Inr (init_state\<lparr>last_daily_push_date := Some 0\<rparr>, [c])"
    "card_title c = title_warn @ suffix_tomorrow" by blast
  then show "\<exists>a c. digest_alerts float_str0 tick_digest = Some a
          \<and> set (rain_days_indices a) = {1} \<and> severe_days_indices a = []
          \<and> handle_daily_push float_str0 cfg0 init_state tick_digest
              = Inr (init_state\<lparr>last_daily_push_date := Some 0\<rparr>, [c])
          \<and> card_title c = title_warn @ suffix_tomorrow"
    by (simp add: digest_alerts_sample no_alerts_fields)
next
  assume a: "classify_loop fs today items no_alerts = Inr al"
  show "set (rain_days_indices al) =
          {d. d \<in> {0, 1, 2} \<and> (\<exists>df \<in> set items. \<exists>raw date. fxDate df = Parsed (raw, date)
                 \<and> date - today = d \<and> is_rain (text_to_check df) (precip_mm df))}"
    using a by (rule classify_loop_from_empty(1))
  show "length (rain_alerts al) =
            length (filter (\<lambda>df. is_rain (text_to_check df) (precip_mm df)) items)"
    using a by (rule classify_loop_from_empty(2))
qed

theorem rain_day_rule_witness:
  "classify_loop float_str0 0 [day0, day1, day2] no_alerts =
     Inr (no_alerts\<lparr>rain_alerts :=
                       [rain_line float_str0 [0x660E, 0x5929] kw_moderate_rain (Finite 12)],
                     rain_days_indices := [1]\<rparr>)
   \<and> {d. d \<in> {0, 1, 2} \<and> (\<exists>df \<in> set [day0, day1, day2]. \<exists>raw date.
            fxDate df = Parsed (raw, date) \<and> date - 0 = d
            \<and> is_rain (text_to_check df) (precip_mm df))} = {1}
   \<and> is_rain (text_to_check day1) (precip_mm day1)
   \<and> \<not> is_rain (text_to_check day0) (precip_mm day0)
   \<and> \<not> is_rain (text_to_check day2) (precip_mm day2)"
proof -
  let ?al = "no_alerts\<lparr>rain_alerts :=
                       [rain_line float_str0 [0x660E, 0x5929] kw_moderate_rain (Finite 12)],
                     rain_days_indices := [1]\<rparr>"
  note h = rain_day_rule [where fs = float_str0 and today = 0 and items = "[day0, day1, day2]"
      and al = ?al]
  have s: "set (rain_days_indices ?al) = {1}" by simp
  have e: "{d. d \<in> {0, 1, 2} \<and> (\<exists>df \<in> set [day0, day1, day2]. \<exists>raw date.
            fxDate df = Parsed (raw, date) \<and> date - 0 = d
            \<and> is_rain (text_to_check df) (precip_mm df))} = {1}"
    using h classify_sample s by simp
  have r: "is_rain (text_to_check day1) (precip_mm day1)"
          "\<not> is_rain (text_to_check day0) (precip_mm day0)"
          "\<not> is_rain (text_to_check day2) (precip_mm day2)"
    by (simp_all add: is_rain_def text_to_check_def precip_mm_def day0_def day1_def day2_def
          keyword_defs any_in_def get_default_def)
  show ?thesis using classify_sample e r by blast
qed

section \<open>Qualifying hours and the rain card\<close>

lemma qualifying_iff:
  "qualifying item \<longleftrightarrow>
     (\<exists>k \<in> {kw_moderate_rain, kw_heavy_rain, kw_rainstorm, kw_extreme_rainfall}.
        \<exists>a b. f_text item = a @ k @ b)"
  by (simp add: qualifying_def any_in_iff severe_rain_keywords_def)

lemma qualifying_is_rain_keyword:
  "qualifying item \<Longrightarrow> any_in rain_keywords (f_text item)"
  by (auto simp: qualifying_def any_in_def severe_rain_keywords_def rain_keywords_def)

lemma severe_keywords_stricter: "set severe_rain_keywords \<subset> set rain_keywords"
proof -
  have "kw_shower \<notin> set severe_rain_keywords"
    by (simp add: keyword_defs)
  moreover have "kw_shower \<in> set rain_keywords" by (simp add: rain_keywords_def)
  moreover have "set severe_rain_keywords \<subseteq> set rain_keywords"
    by (auto simp: severe_rain_keywords_def rain_keywords_def)
  ultimately show ?thesis by blast
qed

lemma light_rain_not_qualifying:
  "f_text item = txt_light_rain \<or> f_text item = kw_shower \<Longrightarrow> \<not> qualifying item"
  by (auto simp: qualifying_def any_in_def keyword_defs)

lemma str_in_middle: "str_in k (a @ k @ b)"
  using str_in_iff by blast

lemma str_in_join:
  assumes "x \<in> set xs"
  shows "str_in x (join sep xs)"
  using assms
proof (induction sep xs rule: join.induct)
  case (1 sep)
  then show ?case by simp
next
  case (2 sep y)
  then have "x = y" by simp
  then show ?case using str_in_middle [of x "[]" "[]"] by simp
next
  case (3 sep y z zs)
  show ?case
  proof (cases "x = y")
    case True
    then show ?thesis using str_in_middle [of x "[]" "sep @ join sep (z # zs)"] by simp
  next
    case False
    with 3 have "str_in x (join sep (z # zs))" by simp
    then obtain a b where "join sep (z # zs) = a @ x @ b" using str_in_iff by blast
    then have "join sep (y # z # zs) = (y @ sep @ a) @ x @ b" by simp
    then show ?thesis using str_in_iff by blast
  qed
qed

lemma str_in_append_right: "str_in k s \<Longrightarrow> str_in k (p @ s)"
proof -
  assume "str_in k s"
  then obtain a b where "s = a @ k @ b" using str_in_iff by blast
  then have "p @ s = (p @ a) @ k @ b" by simp
  then show ?thesis using str_in_iff by blast
qed

lemma hourly_line_parts:
  "str_in (f_time f) (hourly_line f) \<and> str_in (f_text f) (hourly_line f)
   \<and> str_in (str_int (f_pop f)) (hourly_line f)"
proof -
  have a: "hourly_line f = [0x2219, 0x20] @ f_time f
             @ ([0x20, 0x7C, 0x20] @ f_text f
                 @ [0x20, 0x7C, 0x20, 0x964D, 0x6C34, 0x6982, 0x7387, 0x20]
                 @ str_int (f_pop f) @ [0x25])"
    by (simp add: hourly_line_def)
  have b: "hourly_line f = ([0x2219, 0x20] @ f_time f @ [0x20, 0x7C, 0x20]) @ f_text f
             @ ([0x20, 0x7C, 0x20, 0x964D, 0x6C34, 0x6982, 0x7387, 0x20]
                 @ str_int (f_pop f) @ [0x25])"
    by (simp add: hourly_line_def)
  have c: "hourly_line f = ([0x2219, 0x20] @ f_time f @ [0x20, 0x7C, 0x20] @ f_text f
             @ [0x20, 0x7C, 0x20, 0x964D, 0x6C34, 0x6982, 0x7387, 0x20])
             @ str_int (f_pop f) @ [0x25]"
    by (simp add: hourly_line_def)
  show ?thesis using a b c str_in_iff by metis
qed

lemma rain_content_lists:
  assumes "f \<in> set detected"
  shows "str_in (hourly_line f) (rain_content cfg detected)"
proof -
  have "str_in (hourly_line f) (join [0x20, 0x20, 0xA] (map hourly_line detected))"
    using assms by (intro str_in_join) simp
  then show ?thesis
    unfolding rain_content_def Let_def by (intro str_in_append_right)
qed

lemma rain_alert_card:
  assumes "handle_rain_alert cfg st t = Inr (st', cards)" and "c \<in> set cards"
  shows "\<exists>hourly first others.
           get_hourly_weather (hourly_resp t) (hourly_now t) = Inr hourly
           \<and> filter qualifying hourly = first # others
           \<and> cards = [c]
           \<and> card_title c = rain_title (f_time first)
           \<and> card_content c = rain_content cfg (first # others)"
  using assms
  by (auto simp: handle_rain_alert_def push_to_feishu_def Let_def detected_forecasts_def
           split: if_splits sum.splits list.splits)

text \<open>
  The qualifying hours, and the card of the rain handler once the stray parentheses of
  lines 272 and 293 are removed. An hourly record qualifies exactly when its text
  contains one of the four words moderate rain, heavy rain, rainstorm, extreme rainfall. These words are a proper
  part of the words of the daily test, every qualifying text passes the keyword part of the
  daily test, and a record whose text is light rain or shower does not qualify. A card
  posted by the rain handler has a title built around the time label of the first
  qualifying record in the order of the list, no record before it qualifies, and its body
  holds one line for each qualifying record, with the time label, the text and the
  probability of that record.
\<close>

theorem qualifying_rule:
  "(qualifying item \<longleftrightarrow>
      (\<exists>k \<in> {kw_moderate_rain, kw_heavy_rain, kw_rainstorm, kw_extreme_rainfall}.
         \<exists>a b. f_text item = a @ k @ b))
   \<and> set severe_rain_keywords \<subset> set rain_keywords
   \<and> (qualifying item1 \<longrightarrow> any_in rain_keywords (f_text item1))
   \<and> (f_text item2 = txt_light_rain \<or> f_text item2 = kw_shower \<longrightarrow> \<not> qualifying item2)
   \<and> (handle_rain_alert cfg st t = Inr (st', cards) \<and> c \<in> set cards \<longrightarrow>
        (\<exists>hourly pre first post.
           get_hourly_weather (hourly_resp t) (hourly_now t) = Inr hourly
           \<and> hourly = pre @ first # post \<and> (\<forall>x \<in> set pre. \<not> qualifying x) \<and> qualifying first
           \<and> card_title c = rain_title (f_time first)
           \<and> str_in (f_time first) (card_title c)
           \<and> card_content c = rain_content cfg (filter qualifying hourly)
           \<and> (\<forall>f \<in> set hourly. qualifying f \<longrightarrow>
                 str_in (hourly_line f) (card_content c)
                 \<and> str_in (f_time f) (hourly_line f) \<and> str_in (f_text f) (hourly_line f)
                 \<and> str_in (str_int (f_pop f)) (hourly_line f))))"
proof (intro conjI impI)
  show "qualifying item \<longleftrightarrow>
      (\<exists>k \<in> {kw_moderate_rain, kw_heavy_rain, kw_rainstorm, kw_extreme_rainfall}.
         \<exists>a b. f_text item = a @ k @ b)"
    by (rule qualifying_iff)
  show "set severe_rain_keywords \<subset> set rain_keywords" by (rule severe_keywords_stricter)
next
  assume "qualifying item1"
  then show "any_in rain_keywords (f_text item1)" by (rule qualifying_is_rain_keyword)
next
  assume "f_text item2 = txt_light_rain \<or> f_text item2 = kw_shower"
  then show "\<not> qualifying item2" by (rule light_rain_not_qualifying)
next
  assume a: "handle_rain_alert cfg st t = Inr (st', cards) \<and> c \<in> set cards"
  then obtain hourly first others where
    g: "get_hourly_weather (hourly_resp t) (hourly_now t) = Inr hourly" and
    f: "filter qualifying hourly = first # others" and
    ti: "card_title c = rain_title (f_time first)" and
    co: "card_content c = rain_content cfg (first # others)"
    using rain_alert_card [of cfg st t st' cards c] by blast
  from f obtain pre post where
    sp: "hourly = pre @ first # post" and np: "\<forall>x \<in> set pre. \<not> qualifying x" and
    qf: "qualifying first"
    unfolding filter_eq_Cons_iff by blast
  have st: "str_in (f_time first) (card_title c)"
    unfolding ti rain_title_def by (rule str_in_middle)
  have co': "card_content c = rain_content cfg (filter qualifying hourly)"
    using co f by simp
  have ln: "\<forall>f \<in> set hourly. qualifying f \<longrightarrow>
                 str_in (hourly_line f) (card_content c)
                 \<and> str_in (f_time f) (hourly_line f) \<and> str_in (f_text f) (hourly_line f)
                 \<and> str_in (str_int (f_pop f)) (hourly_line f)"
    unfolding co' using rain_content_lists hourly_line_parts by simp
  show "\<exists>hourly pre first post.
           get_hourly_weather (hourly_resp t) (hourly_now t) = Inr hourly
           \<and> hourly = pre @ first # post \<and> (\<forall>x \<in> set pre. \<not> qualifying x) \<and> qualifying first
           \<and> card_title c = rain_title (f_time first)
           \<and> str_in (f_time first) (card_title c)
           \<and> card_content c = rain_content cfg (filter qualifying hourly)
           \<and> (\<forall>f \<in> set hourly. qualifying f \<longrightarrow>
                 str_in (hourly_line f) (card_content c)
                 \<and> str_in (f_time f) (hourly_line f) \<and> str_in (f_text f) (hourly_line f)
                 \<and> str_in (str_int (f_pop f)) (hourly_line f))"
    using g sp np qf ti st co' ln by blast
qed


lemma hourly_tick_rain:
  "get_hourly_weather (hourly_resp tick_rain) (hourly_now tick_rain) =
     Inr [to_forecast h15, to_forecast h16, to_forecast h17]"
  by (simp add: tick_rain_def h15_def h16_def h17_def code_200_def get_hourly_weather_def
        get_default_def in_window_def six_hours_def to_forecast_def)

lemma sample_qualifying:
  "\<not> qualifying (to_forecast h15)" "qualifying (to_forecast h16)"
  "\<not> qualifying (to_forecast h17)"
  by (simp_all add: qualifying_def any_in_def to_forecast_def h15_def h16_def h17_def
        keyword_defs get_default_def)

lemma time_label_h16: "f_time (to_forecast h16) = [0x31, 0x36, 0x3A, 0x30, 0x30]"
  by (simp add: to_forecast_def h16_def strftime_HM_def two_digits_def)

theorem qualifying_rule_witness:
  "qualifying (to_forecast h16) \<and> any_in rain_keywords (f_text (to_forecast h16))
   \<and> f_text (to_forecast h15) = txt_light_rain \<and> \<not> qualifying (to_forecast h15)
   \<and> (\<exists>c. handle_rain_alert cfg0 init_state tick_rain
             = Inr (init_state\<lparr>rain_active := True\<rparr>, [c])
          \<and> card_title c = rain_title [0x31, 0x36, 0x3A, 0x30, 0x30]
          \<and> str_in (hourly_line (to_forecast h16)) (card_content c))"
proof -
  have i: "\<not> rain_active init_state" by (simp add: init_state_def)
  from rain_step_qualifying [OF qualifying_tick_rain, of init_state] i obtain cs where
    r: "handle_rain_alert cfg0 init_state tick_rain = Inr (init_state\<lparr>rain_active := True\<rparr>, cs)"
    and l: "length cs = 1" by auto
  from l obtain c where cs: "cs = [c]" by (cases cs) auto
  note h = qualifying_rule [where item = "to_forecast h16" and ?item1.0 = "to_forecast h16"
      and ?item2.0 = "to_forecast h15" and cfg = cfg0 and st = init_state and t = tick_rain
      and st' = "init_state\<lparr>rain_active := True\<rparr>" and cards = "[c]" and c = c]
  have lt: "f_text (to_forecast h15) = txt_light_rain"
    by (simp add: to_forecast_def h15_def get_default_def)
  have q1: "any_in rain_keywords (f_text (to_forecast h16))"
    using h sample_qualifying(2) by blast
  have q2: "\<not> qualifying (to_forecast h15)" using h lt by blast
  have p: "handle_rain_alert cfg0 init_state tick_rain
             = Inr (init_state\<lparr>rain_active := True\<rparr>, [c]) \<and> c \<in> set [c]"
    using r cs by simp
  note h5 = h [THEN conjunct2, THEN conjunct2, THEN conjunct2, THEN conjunct2, THEN mp, OF p]
  from h5 obtain hourly pre first post where
    g: "get_hourly_weather (hourly_resp tick_rain) (hourly_now tick_rain) = Inr hourly" and
    sp: "hourly = pre @ first # post" and np: "\<forall>x \<in> set pre. \<not> qualifying x" and
    qf: "qualifying first" and ti: "card_title c = rain_title (f_time first)" and
    ln: "\<forall>f \<in> set hourly. qualifying f \<longrightarrow> str_in (hourly_line f) (card_content c)"
    by blast
  from g have hy: "hourly = [to_forecast h15, to_forecast h16, to_forecast h17]"
    by (simp add: hourly_tick_rain)
  have "filter qualifying hourly = [to_forecast h16]"
    unfolding hy by (simp add: sample_qualifying)
  moreover have "filter qualifying hourly = first # filter qualifying post"
    unfolding sp using np qf by simp
  ultimately have "first = to_forecast h16" by simp
  then have t16: "card_title c = rain_title [0x31, 0x36, 0x3A, 0x30, 0x30]"
    using ti by (simp add: time_label_h16)
  have b16: "str_in (hourly_line (to_forecast h16)) (card_content c)"
    using ln hy sample_qualifying(2) by simp
  show ?thesis using sample_qualifying(2) q1 lt q2 r cs t16 b16 by blast
qed

section \<open>The rain handler of the file at the sample iteration\<close>

lemma line_272_rejected: "\<not> well_bracketed source_line_272"
  by (simp add: well_bracketed_def source_line_272_def)

lemma line_293_rejected: "\<not> well_bracketed source_line_293"
  by (simp add: well_bracketed_def source_line_293_def)

lemma lines_accepted_once_repaired:
  "well_bracketed (take 67 source_line_272 @ drop 68 source_line_272)"
  "well_bracketed (take 65 source_line_293 @ drop 66 source_line_293)"
  by (simp_all add: well_bracketed_def source_line_272_def source_line_293_def)

lemma stray_characters:
  "source_line_272 ! 67 = 0x29" "source_line_293 ! 65 = 0x29"
  by (simp_all add: source_line_272_def source_line_293_def)

lemma as_given_never_runs: "handle_rain_alert_as_given cfg st t = Inl SyntaxError"
  by (simp add: handle_rain_alert_as_given_def line_272_rejected)

text \<open>
  Claim C1, on the source as given. The sample iteration at 14:30 observes one qualifying
  hour with \<open>rain_active\<close> false, where the claim asks for one alert and for the flag to
  become true. Lines 272 and 293 break the bracket rule, so the handler as the file has it
  is refused by Python and posts nothing. With the two characters removed the handler
  posts one card at this iteration and sets the flag.
\<close>

theorem rain_alert_as_given:
  "qualifying_tick cfg0 tick_rain \<and> \<not> rain_active init_state
   \<and> \<not> well_bracketed source_line_272 \<and> \<not> well_bracketed source_line_293
   \<and> handle_rain_alert_as_given cfg0 init_state tick_rain = Inl SyntaxError
   \<and> (\<exists>c. handle_rain_alert cfg0 init_state tick_rain
            = Inr (init_state\<lparr>rain_active := True\<rparr>, [c]))"
proof -
  have i: "\<not> rain_active init_state" by (simp add: init_state_def)
  from rain_step_qualifying [OF qualifying_tick_rain, of init_state] i obtain cs where
    r: "handle_rain_alert cfg0 init_state tick_rain = Inr (init_state\<lparr>rain_active := True\<rparr>, cs)"
    and l: "length cs = 1" by auto
  from l obtain c where "cs = [c]" by (cases cs) auto
  with r have "\<exists>c. handle_rain_alert cfg0 init_state tick_rain
            = Inr (init_state\<lparr>rain_active := True\<rparr>, [c])" by blast
  then show ?thesis
    using qualifying_tick_rain i line_272_rejected line_293_rejected as_given_never_runs
    by blast
qed

text \<open>
  Claim C7, on the source as given. Of the three sample hours (light rain at 15:00,
  moderate rain at 16:00, light rain at 17:00) the loop of lines 279 to 283 detects the
  one at 16:00, as the claim says. The body of the card is built by line 293, which breaks
  the bracket rule at its character 65, a closing parenthesis; without that character the
  line passes. So the handler as the file has it builds no card, where the claim asks for
  a title with the label 16:00 and a body with the line of that hour.
\<close>

theorem rain_card_as_given:
  "detected_forecasts [to_forecast h15, to_forecast h16, to_forecast h17] = [to_forecast h16]
   \<and> f_time (to_forecast h16) = [0x31, 0x36, 0x3A, 0x30, 0x30]
   \<and> source_line_293 ! 65 = 0x29
   \<and> \<not> well_bracketed source_line_293
   \<and> well_bracketed (take 65 source_line_293 @ drop 66 source_line_293)
   \<and> handle_rain_alert_as_given cfg0 init_state tick_rain = Inl SyntaxError"
  using sample_qualifying time_label_h16 stray_characters(2) line_293_rejected
    lines_accepted_once_repaired(2) as_given_never_runs
  by (simp add: detected_forecasts_def)

end
